theory Spec2Isabelle
  imports Complex_Main
begin

section \<open>Numbers, truthiness and rectangles\<close>

text \<open>
  JavaScript numbers are modelled as exact reals: pixel sizes, ratios and offsets are
  computed without rounding. A number is falsy exactly when it is zero (\<open>NaN\<close> and
  \<open>undefined\<close> do not occur for the pixel properties read here; a property an element
  does not have reads as \<open>0\<close>, which is falsy like \<open>undefined\<close>).
  Every division of the modelled code has a non-zero divisor wherever a theorem below
  states its value: \<open>getCoverRect\<close> guards its source size, and \<open>captureFrame\<close> rejects a
  zero target size before any ratio is formed. Where \<open>captureImage\<close> divides by the size
  of a frame image that failed to load, nothing is stated about the quotient.
\<close>

definition falsy :: "real \<Rightarrow> bool" where
  "falsy x = (x = 0)"

definition truthy :: "real \<Rightarrow> bool" where
  "truthy x = (x \<noteq> 0)"

text \<open>\<open>a || b\<close> on numbers.\<close>

definition js_or :: "real \<Rightarrow> real \<Rightarrow> real" where
  "js_or a b = (if truthy a then a else b)"

record crop_rect =
  sx :: real
  sy :: real
  sWidth :: real
  sHeight :: real

section \<open>Cover-fit geometry\<close>

text \<open>\<open>getCoverRect\<close>, the helper inside \<open>CameraService.captureFrame\<close> (both revisions).\<close>

definition getCoverRect :: "real \<Rightarrow> real \<Rightarrow> real \<Rightarrow> real \<Rightarrow> crop_rect option" where
  "getCoverRect srcWidth srcHeight dstWidth dstHeight =
     (if falsy srcWidth \<or> falsy srcHeight then None
      else
        let srcAspect = srcWidth / srcHeight;
            dstAspect = dstWidth / dstHeight
        in if srcAspect > dstAspect then
             (let sWidth' = srcHeight * dstAspect;
                  sx' = (srcWidth - sWidth') / 2
              in Some \<lparr>sx = sx', sy = 0, sWidth = sWidth', sHeight = srcHeight\<rparr>)
           else
             (let sHeight' = srcWidth / dstAspect;
                  sy' = (srcHeight - sHeight') / 2
              in Some \<lparr>sx = 0, sy = sy', sWidth = srcWidth, sHeight = sHeight'\<rparr>))"

text \<open>
  Step 4 of \<open>captureImage\<close> (the single-file \<open>App\<close>): the cover crop of the camera
  source for the frame-sized canvas, as \<open>(offsetX, offsetY, drawWidth, drawHeight)\<close>.
\<close>

definition captureImage_cover :: "real \<Rightarrow> real \<Rightarrow> real \<Rightarrow> real \<Rightarrow> crop_rect" where
  "captureImage_cover sourceWidth sourceHeight frameWidth frameHeight =
     (let targetRatio = frameWidth / frameHeight;
          sourceRatio = sourceWidth / sourceHeight
      in if sourceRatio > targetRatio then
           (let drawHeight = sourceHeight;
                drawWidth = sourceHeight * targetRatio
            in \<lparr>sx = (sourceWidth - drawWidth) / 2, sy = 0,
                sWidth = drawWidth, sHeight = drawHeight\<rparr>)
         else
           (let drawWidth = sourceWidth;
                drawHeight = sourceWidth / targetRatio
            in \<lparr>sx = 0, sy = (sourceHeight - drawHeight) / 2,
                sWidth = drawWidth, sHeight = drawHeight\<rparr>))"

text \<open>
  Step 5 of \<open>captureImage\<close>: digital zoom. \<open>zoomLevel || 1\<close> is the scale; the crop
  shrinks by it and is moved by half of what was cut, on each axis.
\<close>

definition captureImage_zoom :: "real \<Rightarrow> crop_rect \<Rightarrow> crop_rect" where
  "captureImage_zoom zoomLevel r =
     (let zoomScale = js_or zoomLevel 1;
          zoomedWidth = sWidth r / zoomScale;
          zoomedHeight = sHeight r / zoomScale;
          zoomOffsetX = sx r + (sWidth r - zoomedWidth) / 2;
          zoomOffsetY = sy r + (sHeight r - zoomedHeight) / 2
      in \<lparr>sx = zoomOffsetX, sy = zoomOffsetY, sWidth = zoomedWidth, sHeight = zoomedHeight\<rparr>)"

text \<open>
  The crop of the webcam branch of the later \<open>captureFrame\<close>: it starts from the whole
  source and overwrites one axis.
\<close>

definition captureFrame_videoCrop :: "real \<Rightarrow> real \<Rightarrow> real \<Rightarrow> real \<Rightarrow> crop_rect" where
  "captureFrame_videoCrop srcWidth srcHeight dstWidth dstHeight =
     (let srcRatio = srcWidth / srcHeight;
          dstRatio = dstWidth / dstHeight
      in if srcRatio > dstRatio then
           (let cropWidth = srcHeight * dstRatio;
                cropX = (srcWidth - cropWidth) / 2
            in \<lparr>sx = cropX, sy = 0, sWidth = cropWidth, sHeight = srcHeight\<rparr>)
         else
           (let cropHeight = srcWidth / dstRatio;
                cropY = (srcHeight - cropHeight) / 2
            in \<lparr>sx = 0, sy = cropY, sWidth = srcWidth, sHeight = cropHeight\<rparr>))"

section \<open>Elements, configuration and the browser\<close>

datatype tag = VIDEO | IMG | CANVAS

text \<open>
  A drawable DOM element with the pixel properties the code reads. A property the element
  kind does not have (\<open>videoWidth\<close> of an image) is \<open>0\<close>.
\<close>

record element =
  tagName :: tag
  videoWidth :: real
  videoHeight :: real
  naturalWidth :: real
  naturalHeight :: real
  width :: real
  height :: real

text \<open>\<open>getSourceSize\<close>, the other helper inside \<open>captureFrame\<close>.\<close>

definition getSourceSize :: "element option \<Rightarrow> (real \<times> real) option" where
  "getSourceSize el =
     (case el of
        None \<Rightarrow> None
      | Some e \<Rightarrow>
          if tagName e = VIDEO then Some (videoWidth e, videoHeight e)
          else if tagName e = IMG then
            Some (js_or (naturalWidth e) (width e), js_or (naturalHeight e) (height e))
          else Some (width e, height e))"

text \<open>The camera part of the constants module.\<close>

record camera_config =
  USE_IP_CAMERA :: bool
  IP_CAMERA_URL :: string
  IP_CAMERA_SNAPSHOT :: string

definition CAMERA_CONFIG :: camera_config where
  "CAMERA_CONFIG =
     \<lparr>USE_IP_CAMERA = True,
      IP_CAMERA_URL = ''/cam-proxy/video'',
      IP_CAMERA_SNAPSHOT = ''/cam-proxy/shot.jpg''\<rparr>"

text \<open>A string is truthy when it is not empty; a missing key reads as the empty string.\<close>

definition truthy_str :: "string \<Rightarrow> bool" where
  "truthy_str s = (s \<noteq> [])"

text \<open>\<open>'' + n\<close> for a non-negative integer: its decimal digits. The index into the
  digits is below ten at both places.\<close>

fun toString :: "nat \<Rightarrow> string" where
  "toString n =
     (if n < 10 then [''0123456789'' ! n]
      else toString (n div 10) @ [''0123456789'' ! (n mod 10)])"

declare toString.simps [simp del]

record blob =
  blob_size :: nat

text \<open>
  What a capture reads from the outside: the clock, the network (an image URL loads to an
  element, or fails), the document (the two selectors for the live IP preview image),
  whether \<open>drawImage\<close> of the camera source throws, and what \<open>canvas.toBlob\<close> hands to
  its callback; for the code that composes a frame on top: whether drawing the frame image
  throws, whether \<open>toDataURL\<close> throws, whether the captured blob loads back as an image,
  and what \<open>toBlob\<close> of the composing canvas yields.
\<close>

record browser =
  now :: nat
  loadImage :: "string \<Rightarrow> element option"
  query_camera_stream :: "element option"
  query_ip_camera_img :: "element option"
  drawImage_error :: "string option"
  toBlob :: "blob option"
  drawFrame_error :: "string option"
  toDataURL_error :: "string option"
  loadBlobImage_ok :: bool
  composite_toBlob :: "blob option"

text \<open>Which pixels were drawn: a still fetched from a URL, the live preview image found
  in the document, or the element the caller passed.\<close>

datatype pixel_source = FetchedStill string | LivePreview | Provided

text \<open>
  The canvas after drawing: its size, the pixel source, the source rectangle
  (\<open>None\<close> for the five-argument \<open>drawImage\<close>, which stretches the whole source over the
  canvas) and whether the context was flipped horizontally before the draw.
\<close>

record canvas =
  canvas_width :: real
  canvas_height :: real
  drawn :: pixel_source
  srcRect :: "crop_rect option"
  mirrored :: bool

record capture_result =
  result_blob :: blob
  result_canvas :: canvas
  result_width :: real
  result_height :: real

text \<open>A promise settles with a value, settles with an error, or never settles.\<close>

datatype 'a promise = Resolved 'a | Rejected string | Pending

section \<open>CameraService.captureFrame\<close>

text \<open>\<open>document.querySelector('.camera-stream') || document.querySelector('img[alt=...]')\<close>.\<close>

definition query_preview :: "browser \<Rightarrow> element option" where
  "query_preview env =
     (case query_camera_stream env of Some e \<Rightarrow> Some e | None \<Rightarrow> query_ip_camera_img env)"

text \<open>The tail shared by both revisions: \<open>canvas.toBlob\<close> inside a promise that rejects
  on a null blob.\<close>

definition encode :: "browser \<Rightarrow> canvas \<Rightarrow> capture_result promise" where
  "encode env c =
     (case toBlob env of
        None \<Rightarrow> Rejected ''Failed to create blob from canvas''
      | Some b \<Rightarrow>
          Resolved \<lparr>result_blob = b, result_canvas = c,
                    result_width = canvas_width c, result_height = canvas_height c\<rparr>)"

text \<open>
  The snapshot branch ends differently: the null-blob \<open>throw\<close> happens inside the
  \<open>toBlob\<close> callback, outside the \<open>try\<close> that rejects, so the promise is left pending.
\<close>

definition encode_snapshot :: "browser \<Rightarrow> canvas \<Rightarrow> capture_result promise" where
  "encode_snapshot env c =
     (case toBlob env of
        None \<Rightarrow> Pending
      | Some b \<Rightarrow>
          Resolved \<lparr>result_blob = b, result_canvas = c,
                    result_width = canvas_width c, result_height = canvas_height c\<rparr>)"

definition snapshot_error :: "string \<Rightarrow> string" where
  "snapshot_error snapshotUrl =
     ''Failed to load snapshot from IP camera. Make sure the endpoint '' @ snapshotUrl
       @ '' is available.''"

text \<open>
  \<open>captureFrame\<close> of \<open>src/services/cameraService.js\<close>. The first argument is the
  service's \<open>isIPCamera\<close> field. Every draw is the five-argument \<open>drawImage\<close>.
\<close>

definition captureFrame ::
  "bool \<Rightarrow> camera_config \<Rightarrow> browser \<Rightarrow> element option \<Rightarrow> real \<Rightarrow> real
     \<Rightarrow> capture_result promise" where
  "captureFrame isIPCamera cfg env sourceElement targetWidth targetHeight =
     (if falsy targetWidth \<or> falsy targetHeight then Rejected ''Capture size not provided''
      else if isIPCamera \<and> truthy_str (IP_CAMERA_SNAPSHOT cfg) then
        (let snapshotUrl = IP_CAMERA_SNAPSHOT cfg;
             url = snapshotUrl @ ''?t='' @ toString (now env)
         in case loadImage env url of
              None \<Rightarrow> Rejected (snapshot_error snapshotUrl)
            | Some snapshotImg \<Rightarrow>
                (case drawImage_error env of
                   Some msg \<Rightarrow> Rejected msg
                 | None \<Rightarrow>
                     encode_snapshot env
                       \<lparr>canvas_width = targetWidth, canvas_height = targetHeight,
                        drawn = FetchedStill url, srcRect = None, mirrored = False\<rparr>))
      else
        (let source = (if isIPCamera then query_preview env else sourceElement)
         in case source of
              None \<Rightarrow>
                Rejected
                  (if isIPCamera
                   then ''IP camera image element not found and no snapshot URL configured''
                   else ''Camera source element not provided'')
            | Some src \<Rightarrow>
                (case drawImage_error env of
                   Some msg \<Rightarrow> Rejected (''Failed to capture image: '' @ msg)
                 | None \<Rightarrow>
                     encode env
                       \<lparr>canvas_width = targetWidth, canvas_height = targetHeight,
                        drawn = (if isIPCamera then LivePreview else Provided),
                        srcRect = None,
                        mirrored = (\<not> isIPCamera \<and> tagName src = VIDEO)\<rparr>)))"

text \<open>
  \<open>captureFrame\<close> of the later revision of the service: the snapshot and every other
  source are drawn through a cover rectangle (the nine-argument \<open>drawImage\<close>), with the
  stretch kept only where \<open>getCoverRect\<close> returns \<open>null\<close>.
\<close>

definition captureFrame2 ::
  "bool \<Rightarrow> camera_config \<Rightarrow> browser \<Rightarrow> element option \<Rightarrow> real \<Rightarrow> real
     \<Rightarrow> capture_result promise" where
  "captureFrame2 isIPCamera cfg env sourceElement targetWidth targetHeight =
     (if falsy targetWidth \<or> falsy targetHeight then Rejected ''Capture size not provided''
      else if isIPCamera \<and> truthy_str (IP_CAMERA_SNAPSHOT cfg) then
        (let snapshotUrl = IP_CAMERA_SNAPSHOT cfg;
             url = snapshotUrl @ ''?t='' @ toString (now env)
         in case loadImage env url of
              None \<Rightarrow> Rejected (snapshot_error snapshotUrl)
            | Some snapshotImg \<Rightarrow>
                (let sRect = getCoverRect (naturalWidth snapshotImg) (naturalHeight snapshotImg)
                               targetWidth targetHeight
                 in case drawImage_error env of
                      Some msg \<Rightarrow> Rejected msg
                    | None \<Rightarrow>
                        encode_snapshot env
                          \<lparr>canvas_width = targetWidth, canvas_height = targetHeight,
                           drawn = FetchedStill url, srcRect = sRect, mirrored = False\<rparr>))
      else
        (let source = (if isIPCamera then query_preview env else sourceElement)
         in case source of
              None \<Rightarrow>
                Rejected
                  (if isIPCamera
                   then ''IP camera image element not found and no snapshot URL configured''
                   else ''Camera source element not provided'')
            | Some src \<Rightarrow>
                (case drawImage_error env of
                   Some msg \<Rightarrow> Rejected (''Failed to capture image: '' @ msg)
                 | None \<Rightarrow>
                     if \<not> isIPCamera \<and> tagName src = VIDEO then
                       encode env
                         \<lparr>canvas_width = targetWidth, canvas_height = targetHeight,
                          drawn = Provided,
                          srcRect = Some (captureFrame_videoCrop (videoWidth src) (videoHeight src)
                                            targetWidth targetHeight),
                          mirrored = True\<rparr>
                     else
                       (case getSourceSize (Some src) of
                          None \<Rightarrow> Rejected ''Failed to capture image: srcSize is null''
                        | Some srcSize \<Rightarrow>
                            (let sRect = getCoverRect (fst srcSize) (snd srcSize)
                                           targetWidth targetHeight
                             in encode env
                                  \<lparr>canvas_width = targetWidth, canvas_height = targetHeight,
                                   drawn = (if isIPCamera then LivePreview else Provided),
                                   srcRect = sRect, mirrored = False\<rparr>)))))"

section \<open>Camera initialisation\<close>

text \<open>
  A media constraint as the code writes them: a bare value (\<open>facingMode: 'user'\<close>),
  \<open>{exact: id}\<close>, \<open>{ideal: n}\<close>, \<open>{ideal: n, max: m}\<close>, \<open>{ideal: n, min: m}\<close>.
  A video constraint object maps property names to constraints.
\<close>

datatype constraint =
  Bare string | Exact string | Ideal real | Ideal_Max real real | Ideal_Min real real

type_synonym video_constraints = "string \<rightharpoonup> constraint"

text \<open>The \<open>video\<close> property of the \<open>constraints\<close> argument: absent, \<open>true\<close>, or an object.\<close>

datatype video_arg = Undefined | VTrue | VObject video_constraints

text \<open>Object spread \<open>...constraints.video\<close>: only an object contributes properties.\<close>

fun spread :: "video_arg \<Rightarrow> video_constraints" where
  "spread Undefined = Map.empty"
| "spread VTrue = Map.empty"
| "spread (VObject m) = m"

definition mergedConstraints :: "video_arg \<Rightarrow> video_constraints" where
  "mergedConstraints video =
     [''facingMode'' \<mapsto> Bare ''user'', ''width'' \<mapsto> Ideal 1920, ''height'' \<mapsto> Ideal 1080]
       ++ spread video"

text \<open>A thrown error: its \<open>name\<close> and its \<open>message\<close>.\<close>

datatype dom_error = DomError string string

datatype error_type = PERMISSION_DENIED | NO_DEVICE | CAMERA_IN_USE | OVERCONSTRAINED | UNKNOWN

text \<open>The result objects of the service; an absent property is \<open>None\<close>.\<close>

record init_result =
  success :: bool
  result_stream :: "nat option"
  result_isIPCamera :: "bool option"
  endpoint :: "string option"
  error :: "string option"
  errorType :: "error_type option"

definition succeeded :: "nat option \<Rightarrow> bool \<Rightarrow> string option \<Rightarrow> init_result" where
  "succeeded st ip ep =
     \<lparr>success = True, result_stream = st, result_isIPCamera = Some ip, endpoint = ep,
      error = None, errorType = None\<rparr>"

definition failed :: "string \<Rightarrow> error_type \<Rightarrow> init_result" where
  "failed msg ty =
     \<lparr>success = False, result_stream = None, result_isIPCamera = None, endpoint = None,
      error = Some msg, errorType = Some ty\<rparr>"

text \<open>
  The platform: \<open>getUserMedia\<close> answers the \<open>k\<close>-th request (counted from \<open>0\<close>) for
  the given constraints with an error or a stream; waiting for the video element's
  metadata after the \<open>k\<close>-th request ends well or rejects with a message.
\<close>

record media_env =
  getUserMedia :: "nat \<Rightarrow> video_constraints \<Rightarrow> dom_error + nat"
  metadata_error :: "nat \<Rightarrow> string option"

text \<open>
  The service object. \<open>gumCalls\<close> and \<open>stopped\<close> are not fields of the class: they
  record, in order, the constraints of every \<open>getUserMedia\<close> request made and the streams
  whose tracks were stopped.
\<close>

record camera_service =
  stream :: "nat option"
  mediaStream :: "nat option"
  videoElement :: "element option"
  isIPCamera :: bool
  isInitializing :: bool
  gumCalls :: "video_constraints list"
  stopped :: "nat list"

definition new_CameraService :: camera_service where
  "new_CameraService =
     \<lparr>stream = None, mediaStream = None, videoElement = None, isIPCamera = False,
      isInitializing = False, gumCalls = [], stopped = []\<rparr>"

definition stop :: "camera_service \<Rightarrow> camera_service" where
  "stop s =
     s\<lparr>stopped := stopped s @ (case mediaStream s of Some m \<Rightarrow> [m] | None \<Rightarrow> []),
       stream := None, mediaStream := None, isIPCamera := False, isInitializing := False\<rparr>"

definition initializeIPCamera :: "camera_config \<Rightarrow> camera_service \<Rightarrow> camera_service \<times> init_result" where
  "initializeIPCamera cfg s =
     (s\<lparr>isIPCamera := True\<rparr>,
      succeeded None True
        (Some (if truthy_str (IP_CAMERA_URL cfg) then IP_CAMERA_URL cfg else ''/cam-proxy/video'')))"

text \<open>The \<open>catch\<close> block of \<open>initializeDeviceCamera\<close>.\<close>

fun device_failure :: "dom_error \<Rightarrow> init_result" where
  "device_failure (DomError name message) =
     (if name = ''NotAllowedError'' then
        failed ''Camera permission denied. Please allow camera access and try again.''
          PERMISSION_DENIED
      else if name = ''NotFoundError'' then
        failed ''No camera device found. Please connect a camera and try again.'' NO_DEVICE
      else if name = ''NotReadableError'' then
        failed (''Camera is already in use. Please close other browser tabs or apps using ''
                 @ ''the camera, then click '' @ [CHR 0x22] @ ''Try Again'' @ [CHR 0x22] @ ''.'')
          CAMERA_IN_USE
      else if name = ''OverconstrainedError'' then
        failed ''Camera does not support the requested settings. Trying with basic settings...''
          OVERCONSTRAINED
      else failed (''Camera error: '' @ message) UNKNOWN)"

text \<open>\<open>initializeDeviceCamera\<close> up to its first \<open>await\<close>: the request is made.\<close>

definition request_camera :: "video_arg \<Rightarrow> camera_service \<Rightarrow> camera_service" where
  "request_camera video s =
     s\<lparr>isIPCamera := False, gumCalls := gumCalls s @ [mergedConstraints video]\<rparr>"

text \<open>
  \<open>initializeDeviceCamera\<close>, run to completion. The wait for the element's metadata
  throws a plain \<open>Error\<close>; a failing \<open>play()\<close> is only logged.
\<close>

definition initializeDeviceCamera ::
  "media_env \<Rightarrow> video_arg \<Rightarrow> element option \<Rightarrow> camera_service
     \<Rightarrow> camera_service \<times> init_result" where
  "initializeDeviceCamera env video videoEl s =
     (let k = length (gumCalls s);
          s1 = request_camera video s
      in case getUserMedia env k (mergedConstraints video) of
           Inl err \<Rightarrow> (s1, device_failure err)
         | Inr ms \<Rightarrow>
             (let s2 = s1\<lparr>mediaStream := Some ms\<rparr>
              in case (if videoEl = None then None else metadata_error env k) of
                   Some msg \<Rightarrow> (s2, device_failure (DomError ''Error'' msg))
                 | None \<Rightarrow> (s2\<lparr>stream := Some ms\<rparr>, succeeded (Some ms) False None)))"

text \<open>Lines 33 to 38 of \<open>initialize\<close>: raise the flag, stop, remember the element.\<close>

definition initialize_prepare :: "element option \<Rightarrow> camera_service \<Rightarrow> camera_service" where
  "initialize_prepare videoEl s = (stop (s\<lparr>isInitializing := True\<rparr>))\<lparr>videoElement := videoEl\<rparr>"

text \<open>
  \<open>initialize\<close>, run to completion with no other code running at its \<open>await\<close>s. The
  \<open>finally\<close> block clears the flag on every path.
\<close>

definition initialize ::
  "camera_config \<Rightarrow> media_env \<Rightarrow> video_arg \<Rightarrow> element option \<Rightarrow> camera_service
     \<Rightarrow> camera_service \<times> init_result" where
  "initialize cfg env video videoEl s =
     (if isInitializing s \<and> mediaStream s \<noteq> None then
        (s\<lparr>isInitializing := False\<rparr>, succeeded (mediaStream s) (isIPCamera s) None)
      else
        (let s1 = initialize_prepare videoEl s
         in if USE_IP_CAMERA cfg then
              (let (s2, ipResult) = initializeIPCamera cfg s1
               in (s2\<lparr>isInitializing := False\<rparr>, ipResult))
            else
              (let (s2, result) = initializeDeviceCamera env video videoEl s1
               in if \<not> success result \<and> errorType result = Some OVERCONSTRAINED then
                    (let (s3, retried) = initializeDeviceCamera env VTrue videoEl s2
                     in (s3\<lparr>isInitializing := False\<rparr>, retried))
                  else (s2\<lparr>isInitializing := False\<rparr>, result))))"

text \<open>
  Where a call of \<open>initialize\<close> is suspended at its first \<open>await\<close>: in the 100 ms wait of
  the guard, on the IP camera result, or on the \<open>getUserMedia\<close> request.
\<close>

datatype suspended = AtGuardTimer | AtIPCamera | AtGetUserMedia

text \<open>
  \<open>initialize\<close> from its entry to its first \<open>await\<close>. An \<open>async\<close> function runs
  synchronously up to there, and only then can another call start.
\<close>

definition initialize_begin ::
  "camera_config \<Rightarrow> video_arg \<Rightarrow> element option \<Rightarrow> camera_service
     \<Rightarrow> camera_service \<times> suspended" where
  "initialize_begin cfg video videoEl s =
     (if isInitializing s then (s, AtGuardTimer)
      else
        (let s1 = initialize_prepare videoEl s
         in if USE_IP_CAMERA cfg then (fst (initializeIPCamera cfg s1), AtIPCamera)
            else (request_camera video s1, AtGetUserMedia)))"

section \<open>The single-file App: captureImage\<close>

text \<open>A frame of the selector: \<open>{id, name, style, image}\<close>. Every frame the code builds has
  the empty \<open>style\<close>, so step 8 of \<open>captureImage\<close> (CSS border frames) draws nothing and is
  left out; \<open>image\<close> is \<open>null\<close> for the entry \<open>none\<close>.\<close>

record frame =
  frame_id :: string
  frame_name :: string
  image :: "string option"

definition filters :: "(string \<times> string) list" where
  "filters =
     [(''none'', []), (''sepia'', ''sepia(1)''), (''grayscale'', ''grayscale(1)''),
      (''vivid'', ''saturate(2) contrast(1.1)''), (''cool'', ''hue-rotate(180deg) saturate(1.5)'')]"

text \<open>\<open>filters.find(f => f.id === filter)?.class || 'none'\<close>.\<close>

definition filter_class :: "string \<Rightarrow> string" where
  "filter_class f =
     (case map_of filters f of
        None \<Rightarrow> ''none''
      | Some c \<Rightarrow> if truthy_str c then c else ''none'')"

text \<open>The canvas at \<open>toDataURL\<close>: the photo layer and the frame drawn over it, if any.\<close>

record composite =
  out_width :: real
  out_height :: real
  photo_source :: pixel_source
  photo_rect :: crop_rect
  photo_mirrored :: bool
  photo_filter :: string
  frame_layer :: "string option"

text \<open>The state and refs of \<open>App\<close> that \<open>captureImage\<close> reads or sets, and the console.\<close>

record app =
  canvasRef :: bool
  videoRef :: "element option"
  useIPCam :: bool
  zoomLevel :: real
  selectedFrame :: string
  frames :: "frame list"
  filter_id :: string
  capturedImage :: "composite option"
  showPreview :: bool
  console :: "string list"

text \<open>Step 2: the frame image of the selected frame, if it has one, and what loading it
  gave (both \<open>onload\<close> and \<open>onerror\<close> resolve the wait).\<close>

definition currentFrame_image :: "browser \<Rightarrow> app \<Rightarrow> (string \<times> element option) option" where
  "currentFrame_image env a =
     (case find (\<lambda>f. frame_id f = selectedFrame a) (frames a) of
        None \<Rightarrow> None
      | Some f \<Rightarrow>
          (case image f of
             None \<Rightarrow> None
           | Some url \<Rightarrow> if truthy_str url then Some (url, loadImage env url) else None))"

text \<open>Steps 2 and 3: the canvas size. A frame image that failed to load has natural size
  \<open>0\<close>; with no frame image the source's own size is used, then 1920 by 1080.\<close>

definition frame_size :: "browser \<Rightarrow> app \<Rightarrow> element \<Rightarrow> real \<times> real" where
  "frame_size env a source =
     (case currentFrame_image env a of
        Some (url, loaded) \<Rightarrow>
          (case loaded of
             Some frameImg \<Rightarrow> (naturalWidth frameImg, naturalHeight frameImg)
           | None \<Rightarrow> (0, 0))
      | None \<Rightarrow>
          (js_or (js_or (naturalWidth source) (videoWidth source)) 1920,
           js_or (js_or (naturalHeight source) (videoHeight source)) 1080))"

text \<open>Steps 4 and 5: the source rectangle that is drawn.\<close>

definition captureImage_rect :: "browser \<Rightarrow> app \<Rightarrow> element \<Rightarrow> crop_rect" where
  "captureImage_rect env a source =
     (let (frameWidth, frameHeight) = frame_size env a source;
          sourceWidth = js_or (js_or (naturalWidth source) (videoWidth source)) frameWidth;
          sourceHeight = js_or (js_or (naturalHeight source) (videoHeight source)) frameHeight
      in captureImage_zoom (zoomLevel a)
           (captureImage_cover sourceWidth sourceHeight frameWidth frameHeight))"

text \<open>Steps 6 to 9 throw at the first failing call, in this order: the photo draw, the
  frame draw (only with a frame image), \<open>toDataURL\<close>.\<close>

definition captureImage_thrown :: "browser \<Rightarrow> app \<Rightarrow> string option" where
  "captureImage_thrown env a =
     (case drawImage_error env of
        Some msg \<Rightarrow> Some msg
      | None \<Rightarrow>
          (case (if currentFrame_image env a = None then None else drawFrame_error env) of
             Some msg \<Rightarrow> Some msg
           | None \<Rightarrow> toDataURL_error env))"

definition log_error :: "string \<Rightarrow> app \<Rightarrow> app" where
  "log_error msg a = a\<lparr>console := console a @ [msg]\<rparr>"

text \<open>
  \<open>captureImage\<close>. The body of the \<open>try\<close> gives the state before \<open>finally\<close>; the
  \<open>finally\<close> block then sets \<open>showPreview\<close>, also after the two early \<open>return\<close>s.
\<close>

definition captureImage_try :: "browser \<Rightarrow> app \<Rightarrow> app" where
  "captureImage_try env a =
     (if \<not> canvasRef a then log_error ''Canvas ref not found'' a
      else
        case (if useIPCam a then query_preview env else videoRef a) of
          None \<Rightarrow> (log_error ''Camera source not found'' a)\<lparr>showPreview := True\<rparr>
        | Some source \<Rightarrow>
            (case captureImage_thrown env a of
               Some msg \<Rightarrow> log_error (''Error in captureImage: '' @ msg) a
             | None \<Rightarrow>
                 a\<lparr>capturedImage :=
                     Some \<lparr>out_width = fst (frame_size env a source),
                           out_height = snd (frame_size env a source),
                           photo_source = (if useIPCam a then LivePreview else Provided),
                           photo_rect = captureImage_rect env a source,
                           photo_mirrored = (\<not> useIPCam a),
                           photo_filter = filter_class (filter_id a),
                           frame_layer = map_option fst (currentFrame_image env a)\<rparr>\<rparr>))"

definition captureImage :: "browser \<Rightarrow> app \<Rightarrow> app" where
  "captureImage env a = (captureImage_try env a)\<lparr>showPreview := True\<rparr>"

section \<open>CaptureScreen\<close>

text \<open>What the screen stores after a capture: the final blob and its metadata, with the
  canvas the service drew and the frame image composed over it, if any.\<close>

record captured =
  cap_blob :: blob
  cap_canvas :: canvas
  cap_overlay :: "string option"
  cap_frameId :: string
  cap_capturedAt :: nat
  cap_width :: real
  cap_height :: real

text \<open>The props, state and refs of \<open>CaptureScreen\<close> used by the capture and by the keyboard
  handler, with the console and the alerts shown. \<open>previewContainer\<close> is the bounding
  rectangle of the preview container, when the ref is set.\<close>

record capture_screen =
  selectedFrame :: string
  frames :: "frame list"
  framePixelSize :: "(real \<times> real) option"
  zoomLevel :: real
  timerDuration :: nat
  countdownValue :: nat
  isInitialized :: bool
  isCapturing :: bool
  showCountdown :: bool
  showFlash :: bool
  isProcessing :: bool
  capturedImage :: "captured option"
  showPreview :: bool
  videoRef :: "element option"
  previewContainer :: "(real \<times> real) option"
  showTimerPopup :: bool
  showZoomPopup :: bool
  console :: "string list"
  alerts :: "string list"

text \<open>\<open>img?.naturalWidth || img?.width\<close> and its like: a missing element reads as falsy.\<close>

definition opt_num :: "(element \<Rightarrow> real) \<Rightarrow> element option \<Rightarrow> real" where
  "opt_num f el = (case el of None \<Rightarrow> 0 | Some e \<Rightarrow> f e)"

definition both_truthy :: "real \<Rightarrow> real \<Rightarrow> (real \<times> real) option" where
  "both_truthy w h = (if truthy w \<and> truthy h then Some (w, h) else None)"

text \<open>\<open>Math.round\<close>: to the nearest integer, halves upwards.\<close>

definition Math_round :: "real \<Rightarrow> real" where
  "Math_round x = of_int \<lfloor>x + 1 / 2\<rfloor>"

text \<open>\<open>getCaptureDimensions\<close>; the Boolean is \<open>cameraService.isIPCamera\<close>.\<close>

definition getCaptureDimensions :: "bool \<Rightarrow> browser \<Rightarrow> capture_screen \<Rightarrow> (real \<times> real) option" where
  "getCaptureDimensions isIP env c =
     (if selectedFrame c \<noteq> ''none''
         \<and> (case framePixelSize c of None \<Rightarrow> False | Some (w, h) \<Rightarrow> truthy w \<and> truthy h)
      then framePixelSize c
      else
        case (if isIP then
                (let img = query_camera_stream env;
                     width' = js_or (opt_num naturalWidth img) (opt_num width img);
                     height' = js_or (opt_num naturalHeight img) (opt_num height img)
                 in both_truthy width' height')
              else None) of
          Some d \<Rightarrow> Some d
        | None \<Rightarrow>
            (case both_truthy (opt_num videoWidth (videoRef c)) (opt_num videoHeight (videoRef c)) of
               Some d \<Rightarrow> Some d
             | None \<Rightarrow>
                 (case previewContainer c of
                    None \<Rightarrow> None
                  | Some (rw, rh) \<Rightarrow>
                      if truthy rw \<and> truthy rh then Some (Math_round rw, Math_round rh)
                      else None)))"



type_synonym service_capture =
  "bool \<Rightarrow> camera_config \<Rightarrow> browser \<Rightarrow> element option \<Rightarrow> real \<Rightarrow> real \<Rightarrow> capture_result promise"

text \<open>\<open>captureFrame\<close> of the \<open>useCamera\<close> hook, over either revision of the service.\<close>

definition useCamera_captureFrame ::
  "service_capture \<Rightarrow> bool \<Rightarrow> camera_config \<Rightarrow> browser \<Rightarrow> element option \<Rightarrow> real \<Rightarrow> real
     \<Rightarrow> capture_result promise" where
  "useCamera_captureFrame svc isIP cfg env video w h =
     (if falsy w \<or> falsy h then Rejected ''Capture size not provided''
      else if \<not> isIP \<and> video = None then Rejected ''Video element not available''
      else svc isIP cfg env video w h)"

text \<open>
  The frame overlay of \<open>handleCaptureClick\<close>: with a selected frame that has an image, the
  frame and the captured blob are loaded and composed and the composing canvas is encoded.
  The result is the final blob and the overlay drawn, or the message of what was thrown
  (empty where the thrown value has no \<open>message\<close>).
\<close>

definition compose_overlay ::
  "browser \<Rightarrow> capture_screen \<Rightarrow> capture_result \<Rightarrow> string + (blob \<times> string option)" where
  "compose_overlay env c res =
     (if selectedFrame c = ''none'' then Inr (result_blob res, None)
      else
        case find (\<lambda>f. frame_id f = selectedFrame c) (frames c) of
          None \<Rightarrow> Inr (result_blob res, None)
        | Some f \<Rightarrow>
            (case image f of
               None \<Rightarrow> Inr (result_blob res, None)
             | Some url \<Rightarrow>
                 if \<not> truthy_str url then Inr (result_blob res, None)
                 else if loadImage env url = None then Inl ''Failed to load frame''
                 else if \<not> loadBlobImage_ok env then Inl []
                 else
                   (case drawFrame_error env of
                      Some msg \<Rightarrow> Inl msg
                    | None \<Rightarrow>
                        (case composite_toBlob env of
                           None \<Rightarrow> Inl ''Failed to execute createObjectURL''
                         | Some b \<Rightarrow> Inr (b, Some url)))))"

text \<open>The \<open>catch\<close> and \<open>finally\<close> blocks of the timer callback.\<close>

definition capture_failed :: "string \<Rightarrow> capture_screen \<Rightarrow> capture_screen" where
  "capture_failed msg c =
     c\<lparr>console := console c @ [''Capture failed: '' @ msg],
       alerts := alerts c
                  @ [if truthy_str msg then msg else ''Failed to capture image. Please try again.''],
       isProcessing := False,
       isCapturing := False\<rparr>"

text \<open>
  The callback that \<open>handleCaptureClick\<close> schedules after the countdown. A capture promise
  that never settles leaves the callback suspended, with \<open>isCapturing\<close> still set.
\<close>

definition handleCapture_timer ::
  "service_capture \<Rightarrow> bool \<Rightarrow> camera_config \<Rightarrow> browser \<Rightarrow> capture_screen \<Rightarrow> capture_screen" where
  "handleCapture_timer svc isIP cfg env c =
     (let c1 = c\<lparr>showCountdown := False, showFlash := True\<rparr>
      in case getCaptureDimensions isIP env c1 of
           None \<Rightarrow> capture_failed ''Unable to determine capture size'' c1
         | Some (w, h) \<Rightarrow>
             (case useCamera_captureFrame svc isIP cfg env (videoRef c1) w h of
                Rejected msg \<Rightarrow> capture_failed msg c1
              | Pending \<Rightarrow> c1
              | Resolved captureResult \<Rightarrow>
                  (case compose_overlay env c1 captureResult of
                     Inl msg \<Rightarrow> capture_failed msg c1
                   | Inr (finalBlob, overlay) \<Rightarrow>
                       c1\<lparr>capturedImage :=
                            Some \<lparr>cap_blob = finalBlob, cap_canvas = result_canvas captureResult,
                                  cap_overlay = overlay, cap_frameId = selectedFrame c1,
                                  cap_capturedAt = now env, cap_width = w, cap_height = h\<rparr>,
                          isProcessing := False,
                          showPreview := True,
                          isCapturing := False\<rparr>)))"


definition flash_timer :: "capture_screen \<Rightarrow> capture_screen" where
  "flash_timer c = c\<lparr>showFlash := False, isProcessing := True\<rparr>"







section \<open>StorageService\<close>

text \<open>
  The two object stores of the database, keyed by \<open>id\<close>. Times are milliseconds
  (\<open>Date.now()\<close>); the ISO strings the code stores order the same way. Counts and sizes are
  integers. The metadata spread into a record has the keys the callers pass: the category
  of a session; frame id, capture time and pixel size of a photo.
\<close>

record session =
  session_id :: string
  createdAt :: nat
  updatedAt :: nat
  photoCount :: int
  totalSize :: int
  frameCategory :: string
  category :: string

record photo_metadata =
  frameId :: string
  capturedAt :: nat
  photo_width :: real
  photo_height :: real

record photo =
  photo_id :: string
  sessionId :: string
  photo_blob :: "blob option"
  blobSize :: int
  photo_createdAt :: nat
  edited :: bool
  metadata :: photo_metadata

record storage =
  sessions :: "string \<rightharpoonup> session"
  photos :: "string \<rightharpoonup> photo"

definition new_StorageService :: storage where
  "new_StorageService = \<lparr>sessions = Map.empty, photos = Map.empty\<rparr>"

text \<open>\<open>a || b\<close> on integers.\<close>

definition int_or :: "int \<Rightarrow> int \<Rightarrow> int" where
  "int_or a b = (if a = 0 then b else a)"

datatype storage_error = ConstraintError

text \<open>\<open>createSession\<close> as \<open>useSession\<close> calls it; \<open>store.add\<close> fails on a key in use.\<close>

definition createSession :: "nat \<Rightarrow> string \<Rightarrow> storage \<Rightarrow> storage \<times> (storage_error + session)" where
  "createSession t cat db =
     (let s = \<lparr>session_id = ''session-'' @ toString t, createdAt = t, updatedAt = t,
                photoCount = 0, totalSize = 0,
                frameCategory = (if truthy_str cat then cat else ''none''), category = cat\<rparr>
      in if sessions db (session_id s) = None
         then (db\<lparr>sessions := (sessions db)(session_id s \<mapsto> s)\<rparr>, Inr s)
         else (db, Inl ConstraintError))"

text \<open>
  \<open>savePhoto\<close>: one transaction over both stores. A photo key in use fails the \<open>add\<close>
  and aborts the transaction, so nothing is written. Otherwise the photo is stored, and
  the session, when it exists, is read, updated and put back.
\<close>

definition savePhoto ::
  "nat \<Rightarrow> string \<Rightarrow> blob \<Rightarrow> photo_metadata \<Rightarrow> storage \<Rightarrow> storage \<times> (storage_error + photo)" where
  "savePhoto t sid imageBlob md db =
     (let p = \<lparr>photo_id = ''photo-'' @ toString t, sessionId = sid,
                photo_blob = Some imageBlob, blobSize = int (blob_size imageBlob),
                photo_createdAt = t, edited = False, metadata = md\<rparr>
      in if photos db (photo_id p) = None then
           (db\<lparr>photos := (photos db)(photo_id p \<mapsto> p),
               sessions :=
                 (case sessions db sid of
                    None \<Rightarrow> sessions db
                  | Some s \<Rightarrow>
                      (sessions db)(session_id s \<mapsto>
                         s\<lparr>photoCount := int_or (photoCount s) 0 + 1,
                           totalSize := int_or (totalSize s) 0 + int (blob_size imageBlob),
                           updatedAt := t\<rparr>))\<rparr>,
            Inr (p\<lparr>photo_blob := None\<rparr>))
         else (db, Inl ConstraintError))"

text \<open>\<open>deletePhoto\<close>: nothing happens for an unknown id; the promise resolves either way.\<close>

definition deletePhoto :: "string \<Rightarrow> storage \<Rightarrow> storage" where
  "deletePhoto pid db =
     (case photos db pid of
        None \<Rightarrow> db
      | Some p \<Rightarrow>
          db\<lparr>photos := (photos db)(pid := None),
             sessions :=
               (case sessions db (sessionId p) of
                  None \<Rightarrow> sessions db
                | Some s \<Rightarrow>
                    (sessions db)(session_id s \<mapsto>
                       s\<lparr>photoCount := max 0 (int_or (photoCount s) 1 - 1),
                         totalSize := max 0 (int_or (totalSize s) 0 - int_or (blobSize p) 0)\<rparr>))\<rparr>)"

text \<open>\<open>clearOldSessions\<close>, given the cut-off time: every session created at or before it is
  deleted together with the photos that name it.\<close>

definition clearOldSessions :: "nat \<Rightarrow> storage \<Rightarrow> storage" where
  "clearOldSessions cutoff db =
     db\<lparr>sessions :=
          (\<lambda>k. case sessions db k of
                 None \<Rightarrow> None
               | Some s \<Rightarrow> if createdAt s \<le> cutoff then None else Some s),
        photos :=
          (\<lambda>k. case photos db k of
                 None \<Rightarrow> None
               | Some p \<Rightarrow>
                   (case sessions db (sessionId p) of
                      None \<Rightarrow> Some p
                    | Some s \<Rightarrow> if createdAt s \<le> cutoff then None else Some p))\<rparr>"

text \<open>The calls a client can make, and the store after a sequence of them.\<close>

datatype storage_call =
  CreateSession nat string
| SavePhoto nat string blob photo_metadata
| DeletePhoto string
| ClearOldSessions nat

fun call :: "storage_call \<Rightarrow> storage \<Rightarrow> storage" where
  "call (CreateSession t cat) db = fst (createSession t cat db)"
| "call (SavePhoto t sid b md) db = fst (savePhoto t sid b md db)"
| "call (DeletePhoto pid) db = deletePhoto pid db"
| "call (ClearOldSessions cutoff) db = clearOldSessions cutoff db"

fun calls :: "storage_call list \<Rightarrow> storage \<Rightarrow> storage" where
  "calls [] db = db"
| "calls (c # cs) db = calls cs (call c db)"

section \<open>Example inputs\<close>

text \<open>A webcam's video element at 1920 by 1080, the live IP preview image at 640 by 480,
  a snapshot still at 1920 by 1080, and a portrait frame image of 1080 by 1920.\<close>

definition webcam_video :: element where
  "webcam_video =
     \<lparr>tagName = VIDEO, videoWidth = 1920, videoHeight = 1080, naturalWidth = 0,
      naturalHeight = 0, width = 0, height = 0\<rparr>"

definition preview_img :: element where
  "preview_img =
     \<lparr>tagName = IMG, videoWidth = 0, videoHeight = 0, naturalWidth = 640,
      naturalHeight = 480, width = 640, height = 480\<rparr>"

definition snapshot_img :: element where
  "snapshot_img =
     \<lparr>tagName = IMG, videoWidth = 0, videoHeight = 0, naturalWidth = 1920,
      naturalHeight = 1080, width = 1920, height = 1080\<rparr>"

definition frame_img :: element where
  "frame_img =
     \<lparr>tagName = IMG, videoWidth = 0, videoHeight = 0, naturalWidth = 1080,
      naturalHeight = 1920, width = 1080, height = 1920\<rparr>"

text \<open>A browser at time 42 in which the snapshot and one frame image load, the preview
  image is in the document, and nothing throws.\<close>

definition test_browser :: browser where
  "test_browser =
     \<lparr>now = 42,
      loadImage = map_of [(''/cam-proxy/shot.jpg?t=42'', snapshot_img),
                          (''/assets/Frames/Adult/1.png'', frame_img)],
      query_camera_stream = Some preview_img,
      query_ip_camera_img = Some preview_img,
      drawImage_error = None,
      toBlob = Some \<lparr>blob_size = 1000\<rparr>,
      drawFrame_error = None,
      toDataURL_error = None,
      loadBlobImage_ok = True,
      composite_toBlob = Some \<lparr>blob_size = 2000\<rparr>\<rparr>"

text \<open>The shipped configuration switched to the device camera.\<close>

definition device_config :: camera_config where
  "device_config = CAMERA_CONFIG\<lparr>USE_IP_CAMERA := False\<rparr>"

definition test_frames :: "frame list" where
  "test_frames =
     [\<lparr>frame_id = ''none'', frame_name = ''Original'', image = None\<rparr>,
      \<lparr>frame_id = ''adult-1'', frame_name = ''Frame 1'',
       image = Some ''/assets/Frames/Adult/1.png''\<rparr>]"

text \<open>The single-file App on the webcam, nothing captured yet.\<close>

definition test_app :: app where
  "test_app =
     \<lparr>canvasRef = True, videoRef = Some webcam_video, useIPCam = False, zoomLevel = 1,
      selectedFrame = ''none'', frames = test_frames, filter_id = ''none'',
      capturedImage = None, showPreview = False, console = []\<rparr>"

text \<open>The capture screen on the webcam, counting down, with no frame selected.\<close>

definition test_screen :: capture_screen where
  "test_screen =
     \<lparr>selectedFrame = ''none'', frames = test_frames, framePixelSize = None, zoomLevel = 1,
      timerDuration = 3, countdownValue = 0, isInitialized = True, isCapturing = True,
      showCountdown = True, showFlash = False, isProcessing = False, capturedImage = None,
      showPreview = False, videoRef = Some webcam_video, previewContainer = Some (800, 450),
      showTimerPopup = False, showZoomPopup = False, console = [], alerts = []\<rparr>"

text \<open>A platform that answers the first request with an overconstrained error and every
  later one with a missing device; and the constraints \<open>switchDevice\<close> builds.\<close>

definition overconstrained_then_missing :: media_env where
  "overconstrained_then_missing =
     \<lparr>getUserMedia = (\<lambda>k c. if k = 0 then Inl (DomError ''OverconstrainedError'' ''deviceId'')
                               else Inl (DomError ''NotFoundError'' ''Requested device not found'')),
      metadata_error = (\<lambda>k. None)\<rparr>"

definition switch_constraints :: video_arg where
  "switch_constraints =
     VObject [''deviceId'' \<mapsto> Exact ''cam-2'', ''width'' \<mapsto> Ideal 1920, ''height'' \<mapsto> Ideal 1080]"

text \<open>A session created at time 41 and one photo of 500 bytes saved into it at time 42.\<close>

definition test_metadata :: photo_metadata where
  "test_metadata = \<lparr>frameId = ''none'', capturedAt = 42, photo_width = 1920, photo_height = 1080\<rparr>"

definition test_calls :: "storage_call list" where
  "test_calls =
     [CreateSession 41 ''adult'', SavePhoto 42 ''session-41'' \<lparr>blob_size = 500\<rparr> test_metadata]"

definition test_store :: storage where
  "test_store =
     fst (savePhoto 42 ''session-41'' \<lparr>blob_size = 500\<rparr> test_metadata
            (fst (createSession 41 ''adult'' new_StorageService)))"

text \<open>The invariant of the store: every session sits under its own id, with a count and a
  size that are not negative.\<close>

definition counts_ok :: "storage \<Rightarrow> bool" where
  "counts_ok db = (\<forall>k s. sessions db k = Some s \<longrightarrow>
      session_id s = k \<and> 0 \<le> photoCount s \<and> 0 \<le> totalSize s)"

text \<open>The same browser with nothing loading: the snapshot endpoint is unreachable.\<close>

definition offline_browser :: browser where
  "offline_browser = test_browser\<lparr>loadImage := (\<lambda>url. None)\<rparr>"

text \<open>The shipped configuration with no snapshot endpoint.\<close>

definition no_snapshot_config :: camera_config where
  "no_snapshot_config = CAMERA_CONFIG\<lparr>IP_CAMERA_SNAPSHOT := []\<rparr>"









section \<open>The cover rectangle\<close>

lemma getCoverRect_wide:
  assumes "0 < Sw" "0 < Sh" "0 < Tw" "0 < Th" "Sw / Sh > Tw / Th"
  shows "getCoverRect Sw Sh Tw Th =
      Some \<lparr>sx = (Sw - Sh * Tw / Th) / 2, sy = 0, sWidth = Sh * Tw / Th, sHeight = Sh\<rparr>"
  using assms by (simp add: getCoverRect_def falsy_def Let_def)

lemma getCoverRect_tall:
  assumes "0 < Sw" "0 < Sh" "0 < Tw" "0 < Th" "\<not> Sw / Sh > Tw / Th"
  shows "getCoverRect Sw Sh Tw Th =
      Some \<lparr>sx = 0, sy = (Sh - Sw * Th / Tw) / 2, sWidth = Sw, sHeight = Sw * Th / Tw\<rparr>"
  using assms by (simp add: getCoverRect_def falsy_def Let_def)

lemma wide_crop_fits:
  fixes Sw Sh Tw Th :: real
  assumes "0 < Sw" "0 < Sh" "0 < Tw" "0 < Th" "Sw / Sh > Tw / Th"
  shows "Sh * Tw / Th \<le> Sw"
  using assms by (simp add: field_simps)

lemma tall_crop_fits:
  fixes Sw Sh Tw Th :: real
  assumes "0 < Sw" "0 < Sh" "0 < Tw" "0 < Th" "\<not> Sw / Sh > Tw / Th"
  shows "Sw * Th / Tw \<le> Sh"
  using assms by (simp add: field_simps not_less)

lemma getCoverRect_captureImage_cover:
  "0 < Sw \<Longrightarrow> 0 < Sh \<Longrightarrow> getCoverRect Sw Sh Tw Th = Some (captureImage_cover Sw Sh Tw Th)"
  by (simp add: getCoverRect_def captureImage_cover_def falsy_def Let_def)

lemma videoCrop_captureImage_cover:
  "captureFrame_videoCrop Sw Sh Tw Th = captureImage_cover Sw Sh Tw Th"
  by (simp add: captureFrame_videoCrop_def captureImage_cover_def Let_def)


lemma centred_inside:
  fixes w S :: real
  assumes "w \<le> S"
  shows "0 \<le> (S - w) / 2 \<and> (S - w) / 2 + w \<le> S"
proof
  show "0 \<le> (S - w) / 2" using assms by simp
  show "(S - w) / 2 + w \<le> S" using assms by argo
qed

text \<open>
  Claim C1. For positive source and target sizes, the cover rectangle (of \<open>getCoverRect\<close>,
  of step 4 of \<open>captureImage\<close> and of the webcam branch of the later \<open>captureFrame\<close>, which
  agree) has the target's width to height ratio, lies inside the source, and is centred:
  for a relatively wider source it is \<open>Sh * Tw / Th\<close> by \<open>Sh\<close> at vertical offset \<open>0\<close>,
  otherwise \<open>Sw\<close> by \<open>Sw * Th / Tw\<close> at horizontal offset \<open>0\<close>, the other offset being half of
  what is cut. Numbers are exact reals, so the ratio is equal, not only close.
\<close>

theorem cover_rect_fits_target_ratio:
  fixes Sw Sh Tw Th :: real
  assumes "0 < Sw" and "0 < Sh" and "0 < Tw" and "0 < Th"
  shows "\<exists>r. getCoverRect Sw Sh Tw Th = Some r
           \<and> captureImage_cover Sw Sh Tw Th = r
           \<and> captureFrame_videoCrop Sw Sh Tw Th = r
           \<and> sWidth r / sHeight r = Tw / Th
           \<and> 0 \<le> sx r \<and> 0 \<le> sy r \<and> 0 < sWidth r \<and> 0 < sHeight r
           \<and> sx r + sWidth r \<le> Sw \<and> sy r + sHeight r \<le> Sh
           \<and> sx r = (Sw - sWidth r) / 2 \<and> sy r = (Sh - sHeight r) / 2
           \<and> (if Tw / Th < Sw / Sh
                then sWidth r = Sh * Tw / Th \<and> sHeight r = Sh \<and> sy r = 0
                else sWidth r = Sw \<and> sHeight r = Sw * Th / Tw \<and> sx r = 0)"
proof (cases "Tw / Th < Sw / Sh")
  case True
  let ?r = "\<lparr>sx = (Sw - Sh * Tw / Th) / 2, sy = 0, sWidth = Sh * Tw / Th, sHeight = Sh\<rparr>"
  have g: "getCoverRect Sw Sh Tw Th = Some ?r"
    using assms True by (rule getCoverRect_wide)
  have c: "captureImage_cover Sw Sh Tw Th = ?r"
    using getCoverRect_captureImage_cover [OF assms(1,2), of Tw Th] g by simp
  have v: "captureFrame_videoCrop Sw Sh Tw Th = ?r"
    using c by (simp add: videoCrop_captureImage_cover)
  have fit: "Sh * Tw / Th \<le> Sw"
    using assms True by (rule wide_crop_fits)
  have ratio: "Sh * Tw / Th / Sh = Tw / Th"
    using assms by simp
  have pos: "0 < Sh * Tw / Th"
    using assms by simp
  show ?thesis
    using g c v fit centred_inside [OF fit] ratio pos assms True by (intro exI [of _ ?r]) simp
next
  case False
  let ?r = "\<lparr>sx = 0, sy = (Sh - Sw * Th / Tw) / 2, sWidth = Sw, sHeight = Sw * Th / Tw\<rparr>"
  have g: "getCoverRect Sw Sh Tw Th = Some ?r"
    using assms False by (rule getCoverRect_tall)
  have c: "captureImage_cover Sw Sh Tw Th = ?r"
    using getCoverRect_captureImage_cover [OF assms(1,2), of Tw Th] g by simp
  have v: "captureFrame_videoCrop Sw Sh Tw Th = ?r"
    using c by (simp add: videoCrop_captureImage_cover)
  have fit: "Sw * Th / Tw \<le> Sh"
    using assms False by (rule tall_crop_fits)
  have ratio: "Sw / (Sw * Th / Tw) = Tw / Th"
    using assms by simp
  have pos: "0 < Sw * Th / Tw"
    using assms by simp
  show ?thesis
    using g c v fit centred_inside [OF fit] ratio pos assms False by (intro exI [of _ ?r]) simp
qed

theorem cover_rect_fits_target_ratio_witness:
  "(0::real) < 1920 \<and> (0::real) < 1080
   \<and> getCoverRect 1920 1080 1080 1920
       = Some \<lparr>sx = 656.25, sy = 0, sWidth = 607.5, sHeight = 1080\<rparr>
   \<and> (607.5::real) / 1080 = 1080 / 1920"
  using cover_rect_fits_target_ratio [of 1920 1080 1080 1920]
  by (simp add: getCoverRect_def falsy_def Let_def)

section \<open>Mirroring\<close>

lemma encode_canvas:
  "encode env c = Resolved r \<Longrightarrow> result_canvas r = c"
  by (auto simp: encode_def split: option.splits)

lemma encode_snapshot_canvas:
  "encode_snapshot env c = Resolved r \<Longrightarrow> result_canvas r = c"
  by (auto simp: encode_snapshot_def split: option.splits)

lemma captureFrame_mirrored:
  assumes "captureFrame isIP cfg env source w h = Resolved r"
  shows "mirrored (result_canvas r) = (\<not> isIP \<and> map_option tagName source = Some VIDEO)"
  using assms
  by (auto simp: captureFrame_def Let_def dest!: encode_canvas encode_snapshot_canvas
      split: if_splits option.splits)

lemma captureFrame2_mirrored:
  assumes "captureFrame2 isIP cfg env source w h = Resolved r"
  shows "mirrored (result_canvas r) = (\<not> isIP \<and> map_option tagName source = Some VIDEO)"
  using assms
  by (auto simp: captureFrame2_def Let_def dest!: encode_canvas encode_snapshot_canvas
      split: if_splits option.splits)

lemma captureImage_mirrored:
  assumes "app.capturedImage (captureImage env (a\<lparr>app.capturedImage := None\<rparr>)) = Some c"
  shows "photo_mirrored c = (\<not> useIPCam a)"
  using assms
  by (auto simp: captureImage_def captureImage_try_def log_error_def
      split: if_splits option.splits)

lemma captureFrame_device_video:
  assumes "truthy w" and "truthy h" and "tagName src = VIDEO"
    and "drawImage_error env = None" and "toBlob env = Some b"
  shows "captureFrame False cfg env (Some src) w h
       = Resolved \<lparr>result_blob = b,
           result_canvas = \<lparr>canvas_width = w, canvas_height = h, drawn = Provided,
                            srcRect = None, mirrored = True\<rparr>,
           result_width = w, result_height = h\<rparr>"
  using assms by (simp add: captureFrame_def encode_def truthy_def falsy_def)

lemma captureFrame2_device_video:
  assumes "truthy w" and "truthy h" and "tagName src = VIDEO"
    and "drawImage_error env = None" and "toBlob env = Some b"
  shows "captureFrame2 False cfg env (Some src) w h
       = Resolved \<lparr>result_blob = b,
           result_canvas = \<lparr>canvas_width = w, canvas_height = h, drawn = Provided,
                            srcRect = Some (captureFrame_videoCrop (videoWidth src) (videoHeight src) w h),
                            mirrored = True\<rparr>,
           result_width = w, result_height = h\<rparr>"
  using assms by (simp add: captureFrame2_def encode_def truthy_def falsy_def)

lemma captureImage_stores_picture:
  assumes "canvasRef a" and "(if useIPCam a then query_preview env else app.videoRef a) = Some src"
    and "captureImage_thrown env a = None"
  shows "\<exists>c. app.capturedImage (captureImage env a) = Some c
           \<and> photo_mirrored c = (\<not> useIPCam a)
           \<and> photo_source c = (if useIPCam a then LivePreview else Provided)"
  using assms by (simp add: captureImage_def captureImage_try_def)


text \<open>
  Claim C2. A capture is mirrored exactly when the source is the device camera's video
  element. In both revisions of \<open>captureFrame\<close> a resolved capture has its canvas flipped iff
  the service is not in IP camera mode and the source is a \<open>VIDEO\<close> element, and a device
  camera capture of a video element, with a target size and nothing failing, does resolve
  with the canvas flipped (the later revision through its cover crop). \<open>captureImage\<close>
  stores a picture whenever canvas and source exist and nothing throws, with the photo layer
  flipped iff \<open>useIPCam\<close> is off (the source is then the video element of \<open>videoRef\<close>).
  Frames, filter, zoom and sizes are arbitrary.
\<close>

theorem mirror_iff_local_video:
  "(\<forall>r. captureFrame isIP cfg env source w h = Resolved r \<longrightarrow>
        mirrored (result_canvas r) = (\<not> isIP \<and> map_option tagName source = Some VIDEO))
   \<and> (\<forall>r. captureFrame2 isIP cfg env source w h = Resolved r \<longrightarrow>
        mirrored (result_canvas r) = (\<not> isIP \<and> map_option tagName source = Some VIDEO))
   \<and> (\<forall>c. app.capturedImage (captureImage env (a\<lparr>app.capturedImage := None\<rparr>)) = Some c \<longrightarrow>
        photo_mirrored c = (\<not> useIPCam a))
   \<and> (truthy w \<and> truthy h \<and> tagName src = VIDEO \<and> drawImage_error env = None
        \<and> toBlob env = Some b \<longrightarrow>
        captureFrame False cfg env (Some src) w h
          = Resolved \<lparr>result_blob = b,
              result_canvas = \<lparr>canvas_width = w, canvas_height = h, drawn = Provided,
                               srcRect = None, mirrored = True\<rparr>,
              result_width = w, result_height = h\<rparr>
        \<and> captureFrame2 False cfg env (Some src) w h
          = Resolved \<lparr>result_blob = b,
              result_canvas = \<lparr>canvas_width = w, canvas_height = h, drawn = Provided,
                               srcRect = Some (captureFrame_videoCrop (videoWidth src)
                                                 (videoHeight src) w h),
                               mirrored = True\<rparr>,
              result_width = w, result_height = h\<rparr>)
   \<and> (canvasRef a \<and> (if useIPCam a then query_preview env else app.videoRef a) = Some el
        \<and> captureImage_thrown env a = None \<longrightarrow>
        (\<exists>c. app.capturedImage (captureImage env a) = Some c
             \<and> photo_mirrored c = (\<not> useIPCam a)
             \<and> photo_source c = (if useIPCam a then LivePreview else Provided)))"
proof (intro conjI allI impI)
  fix r assume "captureFrame isIP cfg env source w h = Resolved r"
  then show "mirrored (result_canvas r) = (\<not> isIP \<and> map_option tagName source = Some VIDEO)"
    by (rule captureFrame_mirrored)
next
  fix r assume "captureFrame2 isIP cfg env source w h = Resolved r"
  then show "mirrored (result_canvas r) = (\<not> isIP \<and> map_option tagName source = Some VIDEO)"
    by (rule captureFrame2_mirrored)
next
  fix c assume "app.capturedImage (captureImage env (a\<lparr>app.capturedImage := None\<rparr>)) = Some c"
  then show "photo_mirrored c = (\<not> useIPCam a)"
    by (rule captureImage_mirrored)
next
  assume "truthy w \<and> truthy h \<and> tagName src = VIDEO \<and> drawImage_error env = None
        \<and> toBlob env = Some b"
  then show "captureFrame False cfg env (Some src) w h
          = Resolved \<lparr>result_blob = b,
              result_canvas = \<lparr>canvas_width = w, canvas_height = h, drawn = Provided,
                               srcRect = None, mirrored = True\<rparr>,
              result_width = w, result_height = h\<rparr>"
    by (intro captureFrame_device_video) simp_all
next
  assume "truthy w \<and> truthy h \<and> tagName src = VIDEO \<and> drawImage_error env = None
        \<and> toBlob env = Some b"
  then show "captureFrame2 False cfg env (Some src) w h
          = Resolved \<lparr>result_blob = b,
              result_canvas = \<lparr>canvas_width = w, canvas_height = h, drawn = Provided,
                               srcRect = Some (captureFrame_videoCrop (videoWidth src)
                                                 (videoHeight src) w h),
                               mirrored = True\<rparr>,
              result_width = w, result_height = h\<rparr>"
    by (intro captureFrame2_device_video) simp_all
next
  assume "canvasRef a \<and> (if useIPCam a then query_preview env else app.videoRef a) = Some el
        \<and> captureImage_thrown env a = None"
  then show "\<exists>c. app.capturedImage (captureImage env a) = Some c
             \<and> photo_mirrored c = (\<not> useIPCam a)
             \<and> photo_source c = (if useIPCam a then LivePreview else Provided)"
    by (intro captureImage_stores_picture [of a env el]) simp_all
qed

lemma toString_42: "toString 42 = ''42''"
  by (simp add: toString.simps)

lemma test_browser_draws:
  "drawImage_error test_browser = None \<and> toBlob test_browser = Some \<lparr>blob_size = 1000\<rparr>"
  by (simp add: test_browser_def)

lemma test_app_ready:
  "canvasRef test_app \<and> app.videoRef test_app = Some webcam_video \<and> \<not> useIPCam test_app
   \<and> captureImage_thrown test_browser test_app = None
   \<and> captureImage_thrown test_browser (test_app\<lparr>useIPCam := True\<rparr>) = None
   \<and> query_preview test_browser = Some preview_img"
  by (simp add: test_app_def test_browser_def captureImage_thrown_def currentFrame_image_def
      test_frames_def query_preview_def)

theorem mirror_iff_local_video_witness:
  "captureFrame False device_config test_browser (Some webcam_video) 1920 1080
     = Resolved \<lparr>result_blob = \<lparr>blob_size = 1000\<rparr>,
         result_canvas = \<lparr>canvas_width = 1920, canvas_height = 1080, drawn = Provided,
                          srcRect = None, mirrored = True\<rparr>,
         result_width = 1920, result_height = 1080\<rparr>
   \<and> captureFrame2 False device_config test_browser (Some webcam_video) 1080 1920
     = Resolved \<lparr>result_blob = \<lparr>blob_size = 1000\<rparr>,
         result_canvas = \<lparr>canvas_width = 1080, canvas_height = 1920, drawn = Provided,
                          srcRect = Some \<lparr>sx = 656.25, sy = 0, sWidth = 607.5, sHeight = 1080\<rparr>,
                          mirrored = True\<rparr>,
         result_width = 1080, result_height = 1920\<rparr>
   \<and> (\<exists>r. captureFrame True CAMERA_CONFIG test_browser None 640 480 = Resolved r
         \<and> \<not> mirrored (result_canvas r))
   \<and> (\<exists>r. captureFrame2 True CAMERA_CONFIG test_browser None 640 480 = Resolved r
         \<and> \<not> mirrored (result_canvas r))
   \<and> (\<exists>c. app.capturedImage (captureImage test_browser test_app) = Some c \<and> photo_mirrored c)
   \<and> (\<exists>c. app.capturedImage (captureImage test_browser (test_app\<lparr>useIPCam := True\<rparr>)) = Some c
         \<and> \<not> photo_mirrored c)"
proof -
  have v: "tagName webcam_video = VIDEO" "videoWidth webcam_video = 1920"
    "videoHeight webcam_video = 1080"
    by (simp_all add: webcam_video_def)
  have 1: "captureFrame False device_config test_browser (Some webcam_video) 1920 1080
     = Resolved \<lparr>result_blob = \<lparr>blob_size = 1000\<rparr>,
         result_canvas = \<lparr>canvas_width = 1920, canvas_height = 1080, drawn = Provided,
                          srcRect = None, mirrored = True\<rparr>,
         result_width = 1920, result_height = 1080\<rparr>"
    using mirror_iff_local_video [where w = 1920 and h = 1080 and src = webcam_video
        and env = test_browser and b = "\<lparr>blob_size = 1000\<rparr>" and cfg = device_config,
        THEN conjunct2, THEN conjunct2, THEN conjunct2, THEN conjunct1]
      test_browser_draws v
    by (simp add: truthy_def)
  have 2: "captureFrame2 False device_config test_browser (Some webcam_video) 1080 1920
     = Resolved \<lparr>result_blob = \<lparr>blob_size = 1000\<rparr>,
         result_canvas = \<lparr>canvas_width = 1080, canvas_height = 1920, drawn = Provided,
                          srcRect = Some \<lparr>sx = 656.25, sy = 0, sWidth = 607.5, sHeight = 1080\<rparr>,
                          mirrored = True\<rparr>,
         result_width = 1080, result_height = 1920\<rparr>"
    using mirror_iff_local_video [where w = 1080 and h = 1920 and src = webcam_video
        and env = test_browser and b = "\<lparr>blob_size = 1000\<rparr>" and cfg = device_config,
        THEN conjunct2, THEN conjunct2, THEN conjunct2, THEN conjunct1]
      test_browser_draws v
    by (simp add: truthy_def captureFrame_videoCrop_def Let_def)
  obtain r3 where 3: "captureFrame True CAMERA_CONFIG test_browser None 640 480 = Resolved r3"
    by (simp add: captureFrame_def CAMERA_CONFIG_def test_browser_def falsy_def truthy_str_def
        toString_42 encode_snapshot_def Let_def)
  have m3: "\<not> mirrored (result_canvas r3)"
    using mirror_iff_local_video [where isIP = True and cfg = CAMERA_CONFIG
        and env = test_browser and source = None and w = 640 and h = 480, THEN conjunct1] 3
    by simp
  obtain r4 where 4: "captureFrame2 True CAMERA_CONFIG test_browser None 640 480 = Resolved r4"
    by (simp add: captureFrame2_def CAMERA_CONFIG_def test_browser_def falsy_def truthy_str_def
        toString_42 encode_snapshot_def Let_def)
  have m4: "\<not> mirrored (result_canvas r4)"
    using mirror_iff_local_video [where isIP = True and cfg = CAMERA_CONFIG
        and env = test_browser and source = None and w = 640 and h = 480,
        THEN conjunct2, THEN conjunct1] 4
    by simp
  have 5: "\<exists>c. app.capturedImage (captureImage test_browser test_app) = Some c \<and> photo_mirrored c"
  proof -
    have "canvasRef test_app
        \<and> (if useIPCam test_app then query_preview test_browser else app.videoRef test_app)
            = Some webcam_video
        \<and> captureImage_thrown test_browser test_app = None"
      using test_app_ready by simp
    with mirror_iff_local_video [where a = test_app and env = test_browser and el = webcam_video,
        THEN conjunct2, THEN conjunct2, THEN conjunct2, THEN conjunct2]
    obtain c where "app.capturedImage (captureImage test_browser test_app) = Some c"
      and "photo_mirrored c = (\<not> useIPCam test_app)"
      by blast
    then show ?thesis using test_app_ready by (intro exI [of _ c]) simp
  qed
  have 6: "\<exists>c. app.capturedImage (captureImage test_browser (test_app\<lparr>useIPCam := True\<rparr>)) = Some c
         \<and> \<not> photo_mirrored c"
  proof -
    let ?a = "test_app\<lparr>useIPCam := True\<rparr>"
    have "canvasRef ?a
        \<and> (if useIPCam ?a then query_preview test_browser else app.videoRef ?a) = Some preview_img
        \<and> captureImage_thrown test_browser ?a = None"
      using test_app_ready by simp
    with mirror_iff_local_video [where a = ?a and env = test_browser and el = preview_img,
        THEN conjunct2, THEN conjunct2, THEN conjunct2, THEN conjunct2]
    obtain c where "app.capturedImage (captureImage test_browser ?a) = Some c"
      and "photo_mirrored c = (\<not> useIPCam ?a)"
      by blast
    then show ?thesis by (intro exI [of _ c]) simp
  qed
  have e3: "\<exists>r. captureFrame True CAMERA_CONFIG test_browser None 640 480 = Resolved r
         \<and> \<not> mirrored (result_canvas r)"
    using 3 m3 by (intro exI [of _ r3] conjI)
  have e4: "\<exists>r. captureFrame2 True CAMERA_CONFIG test_browser None 640 480 = Resolved r
         \<and> \<not> mirrored (result_canvas r)"
    using 4 m4 by (intro exI [of _ r4] conjI)
  from 1 2 e3 e4 5 6 show ?thesis by (intro conjI)
qed

section \<open>Digital zoom\<close>

lemma captureImage_zoom_shrinks:
  assumes "z \<noteq> 0"
  shows "sWidth (captureImage_zoom z r) = sWidth r / z
       \<and> sHeight (captureImage_zoom z r) = sHeight r / z
       \<and> sx (captureImage_zoom z r) + sWidth (captureImage_zoom z r) / 2 = sx r + sWidth r / 2
       \<and> sy (captureImage_zoom z r) + sHeight (captureImage_zoom z r) / 2 = sy r + sHeight r / 2"
  using assms by (simp add: captureImage_zoom_def js_or_def truthy_def Let_def field_simps)

lemma captureImage_zoom_one: "captureImage_zoom 1 r = r"
  by (simp add: captureImage_zoom_def js_or_def truthy_def Let_def)

lemma getCaptureDimensions_fields:
  assumes "capture_screen.selectedFrame c' = capture_screen.selectedFrame c"
    and "framePixelSize c' = framePixelSize c"
    and "capture_screen.videoRef c' = capture_screen.videoRef c"
    and "previewContainer c' = previewContainer c"
  shows "getCaptureDimensions isIP env c' = getCaptureDimensions isIP env c"
  using assms by (simp add: getCaptureDimensions_def cong: option.case_cong if_cong)

lemma compose_overlay_fields:
  assumes "capture_screen.selectedFrame c' = capture_screen.selectedFrame c"
    and "capture_screen.frames c' = capture_screen.frames c"
  shows "compose_overlay env c' res = compose_overlay env c res"
  using assms by (simp add: compose_overlay_def cong: option.case_cong if_cong)

lemma capture_failed_image:
  "capture_screen.capturedImage (capture_failed msg c) = capture_screen.capturedImage c"
  by (simp add: capture_failed_def)

lemma handleCapture_timer_zoom:
  "capture_screen.capturedImage (handleCapture_timer svc isIP cfg env (c\<lparr>capture_screen.zoomLevel := z\<rparr>))
     = capture_screen.capturedImage (handleCapture_timer svc isIP cfg env c)"
proof -
  let ?c1 = "c\<lparr>showCountdown := False, showFlash := True\<rparr>"
  let ?c1z = "c\<lparr>capture_screen.zoomLevel := z\<rparr>\<lparr>showCountdown := False, showFlash := True\<rparr>"
  have dims: "getCaptureDimensions isIP env ?c1z = getCaptureDimensions isIP env ?c1"
    by (rule getCaptureDimensions_fields) simp_all
  have vid: "capture_screen.videoRef ?c1z = capture_screen.videoRef ?c1"
    by simp
  have sel: "capture_screen.selectedFrame ?c1z = capture_screen.selectedFrame ?c1"
    by simp
  have ov: "compose_overlay env ?c1z res = compose_overlay env ?c1 res" for res
    by (rule compose_overlay_fields) simp_all
  have img: "capture_screen.capturedImage ?c1z = capture_screen.capturedImage ?c1"
    by simp
  show ?thesis
  proof (cases "getCaptureDimensions isIP env ?c1")
    case None
    then show ?thesis
      unfolding handleCapture_timer_def Let_def dims
      by (simp only: option.case capture_failed_image img)
  next
    case (Some d)
    obtain w h where d: "d = (w, h)" by (cases d)
    show ?thesis
    proof (cases "useCamera_captureFrame svc isIP cfg env (capture_screen.videoRef ?c1) w h")
      case (Resolved r)
      show ?thesis
      proof (cases "compose_overlay env ?c1 r")
        case (Inl msg)
        with Some d Resolved show ?thesis
          unfolding handleCapture_timer_def Let_def dims vid ov
          by (simp only: option.case prod.case promise.case sum.case capture_failed_image img)
      next
        case (Inr p)
        obtain b o' where p: "p = (b, o')" by (cases p)
        from Inr Some d Resolved p show ?thesis
          unfolding handleCapture_timer_def Let_def dims vid ov sel
          by (simp only: option.case prod.case promise.case sum.case) simp
      qed
    next
      case (Rejected msg)
      with Some d show ?thesis
        unfolding handleCapture_timer_def Let_def dims vid
        by (simp only: option.case prod.case promise.case capture_failed_image img)
    next
      case Pending
      with Some d show ?thesis
        unfolding handleCapture_timer_def Let_def dims vid
        by (simp only: option.case prod.case promise.case img)
    qed
  qed
qed

text \<open>
  Claim C3. Digital zoom shrinks the cover crop by the zoom factor about its centre. Step 5
  of \<open>captureImage\<close> does so (the two lemmas above). The capture screen does not: its timer
  callback passes only the target size to \<open>captureFrame\<close>, so the picture is the same for
  every zoom level. On the 1920 by 1080 webcam with no frame, zoom 2 and zoom 1 both draw
  the whole source (the later service through the full rectangle, the earlier one through
  the stretching draw), where the claim asks for the 960 by 540 rectangle at (480, 270).
\<close>

theorem capture_screen_ignores_zoom:
  "map_option (srcRect \<circ> cap_canvas)
      (capture_screen.capturedImage
         (handleCapture_timer captureFrame2 False device_config test_browser
            (test_screen\<lparr>capture_screen.zoomLevel := 2\<rparr>)))
     = Some (Some \<lparr>sx = 0, sy = 0, sWidth = 1920, sHeight = 1080\<rparr>)
   \<and> map_option (srcRect \<circ> cap_canvas)
      (capture_screen.capturedImage
         (handleCapture_timer captureFrame2 False device_config test_browser
            (test_screen\<lparr>capture_screen.zoomLevel := 1\<rparr>)))
     = Some (Some \<lparr>sx = 0, sy = 0, sWidth = 1920, sHeight = 1080\<rparr>)
   \<and> map_option (srcRect \<circ> cap_canvas)
      (capture_screen.capturedImage
         (handleCapture_timer captureFrame False device_config test_browser
            (test_screen\<lparr>capture_screen.zoomLevel := 2\<rparr>)))
     = Some None
   \<and> captureImage_zoom 2 (captureImage_cover 1920 1080 1920 1080)
     = \<lparr>sx = 480, sy = 270, sWidth = 960, sHeight = 540\<rparr>"
  by (simp add: handleCapture_timer_def getCaptureDimensions_def compose_overlay_def
      useCamera_captureFrame_def captureFrame2_def captureFrame_def encode_def
      captureFrame_videoCrop_def captureImage_zoom_def captureImage_cover_def
      test_screen_def test_browser_def device_config_def CAMERA_CONFIG_def webcam_video_def
      opt_num_def both_truthy_def truthy_def falsy_def js_or_def Let_def)

section \<open>Remote capture\<close>

lemma captureFrame_snapshot_source:
  assumes "truthy_str (IP_CAMERA_SNAPSHOT cfg)"
    and "captureFrame True cfg env source w h = Resolved r"
  shows "drawn (result_canvas r) = FetchedStill (IP_CAMERA_SNAPSHOT cfg @ ''?t='' @ toString (now env))"
  using assms
  by (auto simp: captureFrame_def Let_def dest!: encode_snapshot_canvas
      split: if_splits option.splits)

lemma captureFrame2_snapshot_source:
  assumes "truthy_str (IP_CAMERA_SNAPSHOT cfg)"
    and "captureFrame2 True cfg env source w h = Resolved r"
  shows "drawn (result_canvas r) = FetchedStill (IP_CAMERA_SNAPSHOT cfg @ ''?t='' @ toString (now env))"
  using assms
  by (auto simp: captureFrame2_def Let_def dest!: encode_snapshot_canvas
      split: if_splits option.splits)

lemma captureFrame_ignores_document:
  assumes "truthy_str (IP_CAMERA_SNAPSHOT cfg)"
  shows "captureFrame True cfg (env\<lparr>query_camera_stream := q1, query_ip_camera_img := q2\<rparr>) source' w h
       = captureFrame True cfg env source w h"
  using assms by (simp add: captureFrame_def encode_snapshot_def Let_def split: option.splits)

lemma captureFrame2_ignores_document:
  assumes "truthy_str (IP_CAMERA_SNAPSHOT cfg)"
  shows "captureFrame2 True cfg (env\<lparr>query_camera_stream := q1, query_ip_camera_img := q2\<rparr>) source' w h
       = captureFrame2 True cfg env source w h"
  using assms by (simp add: captureFrame2_def encode_snapshot_def Let_def split: option.splits)

lemma captureFrame_snapshot_loaded:
  assumes "truthy_str (IP_CAMERA_SNAPSHOT cfg)"
    and "captureFrame True cfg env source w h = Resolved r"
  shows "\<exists>img. loadImage env (IP_CAMERA_SNAPSHOT cfg @ ''?t='' @ toString (now env)) = Some img"
  using assms
  by (auto simp: captureFrame_def Let_def split: if_splits option.splits)

lemma captureFrame2_snapshot_loaded:
  assumes "truthy_str (IP_CAMERA_SNAPSHOT cfg)"
    and "captureFrame2 True cfg env source w h = Resolved r"
  shows "\<exists>img. loadImage env (IP_CAMERA_SNAPSHOT cfg @ ''?t='' @ toString (now env)) = Some img
           \<and> srcRect (result_canvas r) = getCoverRect (naturalWidth img) (naturalHeight img) w h"
  using assms
  by (auto simp: captureFrame2_def Let_def dest!: encode_snapshot_canvas
      split: if_splits option.splits)

lemma captureFrame_snapshot_unreachable:
  assumes "truthy_str (IP_CAMERA_SNAPSHOT cfg)" and "truthy w" and "truthy h"
    and "loadImage env (IP_CAMERA_SNAPSHOT cfg @ ''?t='' @ toString (now env)) = None"
  shows "captureFrame True cfg env source w h = Rejected (snapshot_error (IP_CAMERA_SNAPSHOT cfg))"
    and "captureFrame2 True cfg env source w h = Rejected (snapshot_error (IP_CAMERA_SNAPSHOT cfg))"
  using assms by (simp_all add: captureFrame_def captureFrame2_def truthy_def falsy_def Let_def)

lemma captureFrame_snapshot_resolves:
  assumes "truthy_str (IP_CAMERA_SNAPSHOT cfg)" and "truthy w" and "truthy h"
    and "loadImage env (IP_CAMERA_SNAPSHOT cfg @ ''?t='' @ toString (now env)) = Some img"
    and "drawImage_error env = None" and "toBlob env = Some b"
  shows "captureFrame True cfg env source w h
       = Resolved \<lparr>result_blob = b,
           result_canvas = \<lparr>canvas_width = w, canvas_height = h,
              drawn = FetchedStill (IP_CAMERA_SNAPSHOT cfg @ ''?t='' @ toString (now env)),
              srcRect = None, mirrored = False\<rparr>,
           result_width = w, result_height = h\<rparr>"
    and "captureFrame2 True cfg env source w h
       = Resolved \<lparr>result_blob = b,
           result_canvas = \<lparr>canvas_width = w, canvas_height = h,
              drawn = FetchedStill (IP_CAMERA_SNAPSHOT cfg @ ''?t='' @ toString (now env)),
              srcRect = getCoverRect (naturalWidth img) (naturalHeight img) w h,
              mirrored = False\<rparr>,
           result_width = w, result_height = h\<rparr>"
  using assms
  by (simp_all add: captureFrame_def captureFrame2_def encode_snapshot_def truthy_def falsy_def
      Let_def)

lemma captureFrame_fallback_preview:
  assumes "\<not> truthy_str (IP_CAMERA_SNAPSHOT cfg)"
    and "captureFrame True cfg env source w h = Resolved r"
  shows "drawn (result_canvas r) = LivePreview"
  using assms
  by (auto simp: captureFrame_def Let_def dest!: encode_canvas split: if_splits option.splits)

lemma captureFrame2_fallback_preview:
  assumes "\<not> truthy_str (IP_CAMERA_SNAPSHOT cfg)"
    and "captureFrame2 True cfg env source w h = Resolved r"
  shows "drawn (result_canvas r) = LivePreview"
  using assms
  by (auto simp: captureFrame2_def Let_def dest!: encode_canvas split: if_splits option.splits)

lemma captureImage_ip_source:
  assumes "app.capturedImage (captureImage env (a\<lparr>app.capturedImage := None\<rparr>)) = Some c"
    and "useIPCam a"
  shows "photo_source c = LivePreview"
  using assms
  by (auto simp: captureImage_def captureImage_try_def log_error_def
      split: if_splits option.splits)


text \<open>
  Claim C4, as stated, fails in two places. With no snapshot endpoint configured,
  \<open>captureFrame\<close> in IP camera mode takes the live preview image from the document and draws
  it (both revisions); and \<open>captureImage\<close> of the single-file App in IP mode always draws the
  live preview image.
\<close>

theorem remote_capture_reads_live_preview:
  "captureFrame True no_snapshot_config test_browser None 640 480
     = Resolved \<lparr>result_blob = \<lparr>blob_size = 1000\<rparr>,
         result_canvas = \<lparr>canvas_width = 640, canvas_height = 480, drawn = LivePreview,
                          srcRect = None, mirrored = False\<rparr>,
         result_width = 640, result_height = 480\<rparr>
   \<and> captureFrame2 True no_snapshot_config test_browser None 640 480
     = Resolved \<lparr>result_blob = \<lparr>blob_size = 1000\<rparr>,
         result_canvas = \<lparr>canvas_width = 640, canvas_height = 480, drawn = LivePreview,
                          srcRect = Some \<lparr>sx = 0, sy = 0, sWidth = 640, sHeight = 480\<rparr>,
                          mirrored = False\<rparr>,
         result_width = 640, result_height = 480\<rparr>
   \<and> map_option photo_source
       (app.capturedImage (captureImage test_browser (test_app\<lparr>useIPCam := True\<rparr>)))
     = Some LivePreview"
  by (simp add: captureFrame_def captureFrame2_def encode_def no_snapshot_config_def
      CAMERA_CONFIG_def test_browser_def preview_img_def query_preview_def getSourceSize_def
      getCoverRect_def js_or_def
      captureImage_def captureImage_try_def captureImage_thrown_def currentFrame_image_def
      test_app_def test_frames_def truthy_str_def truthy_def falsy_def Let_def)

text \<open>
  Claim C4, amended. In IP camera mode with a snapshot endpoint configured (the shipped
  \<open>CAMERA_CONFIG\<close> has \<open>/cam-proxy/shot.jpg\<close>), \<open>captureFrame\<close> of either revision loads the
  still from the snapshot URL followed by \<open>?t=\<close> and the current time: it resolves only when
  that load succeeded, with the loaded still as what is drawn (the later revision through
  the cover rectangle of the still's own size); it rejects when the load fails; with the
  still loaded and nothing else failing it resolves; and it reads neither the live preview
  image in the document nor the element passed in. With no snapshot endpoint configured, a
  resolved \<open>captureFrame\<close> has drawn the live preview image instead, and \<open>captureImage\<close> in IP
  mode draws the live preview image.
\<close>

theorem remote_capture_draws_fresh_snapshot:
  assumes "url = IP_CAMERA_SNAPSHOT cfg @ ''?t='' @ toString (now env)"
  shows "(truthy_str (IP_CAMERA_SNAPSHOT cfg) \<longrightarrow>
          (\<forall>r. captureFrame True cfg env source w h = Resolved r \<longrightarrow>
             (\<exists>img. loadImage env url = Some img)
             \<and> drawn (result_canvas r) = FetchedStill url)
        \<and> (\<forall>r. captureFrame2 True cfg env source w h = Resolved r \<longrightarrow>
             (\<exists>img. loadImage env url = Some img
                \<and> srcRect (result_canvas r)
                    = getCoverRect (naturalWidth img) (naturalHeight img) w h)
             \<and> drawn (result_canvas r) = FetchedStill url)
        \<and> (truthy w \<and> truthy h \<and> loadImage env url = None \<longrightarrow>
             captureFrame True cfg env source w h
               = Rejected (snapshot_error (IP_CAMERA_SNAPSHOT cfg))
             \<and> captureFrame2 True cfg env source w h
               = Rejected (snapshot_error (IP_CAMERA_SNAPSHOT cfg)))
        \<and> (truthy w \<and> truthy h \<and> loadImage env url = Some img \<and> drawImage_error env = None
             \<and> toBlob env = Some b \<longrightarrow>
             captureFrame True cfg env source w h
               = Resolved \<lparr>result_blob = b,
                   result_canvas = \<lparr>canvas_width = w, canvas_height = h,
                      drawn = FetchedStill url, srcRect = None, mirrored = False\<rparr>,
                   result_width = w, result_height = h\<rparr>
             \<and> captureFrame2 True cfg env source w h
               = Resolved \<lparr>result_blob = b,
                   result_canvas = \<lparr>canvas_width = w, canvas_height = h,
                      drawn = FetchedStill url,
                      srcRect = getCoverRect (naturalWidth img) (naturalHeight img) w h,
                      mirrored = False\<rparr>,
                   result_width = w, result_height = h\<rparr>)
        \<and> captureFrame True cfg (env\<lparr>query_camera_stream := q1, query_ip_camera_img := q2\<rparr>)
              source' w h
            = captureFrame True cfg env source w h
        \<and> captureFrame2 True cfg (env\<lparr>query_camera_stream := q1, query_ip_camera_img := q2\<rparr>)
              source' w h
            = captureFrame2 True cfg env source w h)
     \<and> (\<not> truthy_str (IP_CAMERA_SNAPSHOT cfg) \<longrightarrow>
          (\<forall>r. captureFrame True cfg env source w h = Resolved r \<longrightarrow>
             drawn (result_canvas r) = LivePreview)
        \<and> (\<forall>r. captureFrame2 True cfg env source w h = Resolved r \<longrightarrow>
             drawn (result_canvas r) = LivePreview))
     \<and> (\<forall>c. app.capturedImage (captureImage env (a\<lparr>app.capturedImage := None\<rparr>)) = Some c
             \<and> useIPCam a \<longrightarrow>
          photo_source c = LivePreview)"
proof (intro conjI allI impI)
  fix r
  assume t: "truthy_str (IP_CAMERA_SNAPSHOT cfg)"
    and r: "captureFrame True cfg env source w h = Resolved r"
  from t r show "\<exists>img. loadImage env url = Some img"
    unfolding assms by (rule captureFrame_snapshot_loaded)
  from t r show "drawn (result_canvas r) = FetchedStill url"
    unfolding assms by (rule captureFrame_snapshot_source)
next
  fix r
  assume t: "truthy_str (IP_CAMERA_SNAPSHOT cfg)"
    and r: "captureFrame2 True cfg env source w h = Resolved r"
  from t r show "\<exists>img. loadImage env url = Some img
      \<and> srcRect (result_canvas r) = getCoverRect (naturalWidth img) (naturalHeight img) w h"
    unfolding assms by (rule captureFrame2_snapshot_loaded)
  from t r show "drawn (result_canvas r) = FetchedStill url"
    unfolding assms by (rule captureFrame2_snapshot_source)
next
  assume t: "truthy_str (IP_CAMERA_SNAPSHOT cfg)"
    and n: "truthy w \<and> truthy h \<and> loadImage env url = None"
  from n have "truthy w" "truthy h"
    "loadImage env (IP_CAMERA_SNAPSHOT cfg @ ''?t='' @ toString (now env)) = None"
    by (simp_all add: assms)
  with t show "captureFrame True cfg env source w h
      = Rejected (snapshot_error (IP_CAMERA_SNAPSHOT cfg))"
    and "captureFrame2 True cfg env source w h
      = Rejected (snapshot_error (IP_CAMERA_SNAPSHOT cfg))"
    by (rule captureFrame_snapshot_unreachable)+
next
  assume t: "truthy_str (IP_CAMERA_SNAPSHOT cfg)"
    and n: "truthy w \<and> truthy h \<and> loadImage env url = Some img \<and> drawImage_error env = None
             \<and> toBlob env = Some b"
  from n have p: "truthy w" "truthy h"
    "loadImage env (IP_CAMERA_SNAPSHOT cfg @ ''?t='' @ toString (now env)) = Some img"
    "drawImage_error env = None" "toBlob env = Some b"
    by (simp_all add: assms)
  show "captureFrame True cfg env source w h
      = Resolved \<lparr>result_blob = b,
          result_canvas = \<lparr>canvas_width = w, canvas_height = h,
             drawn = FetchedStill url, srcRect = None, mirrored = False\<rparr>,
          result_width = w, result_height = h\<rparr>"
    unfolding assms using t p by (rule captureFrame_snapshot_resolves(1))
  show "captureFrame2 True cfg env source w h
      = Resolved \<lparr>result_blob = b,
          result_canvas = \<lparr>canvas_width = w, canvas_height = h,
             drawn = FetchedStill url,
             srcRect = getCoverRect (naturalWidth img) (naturalHeight img) w h,
             mirrored = False\<rparr>,
          result_width = w, result_height = h\<rparr>"
    unfolding assms using t p by (rule captureFrame_snapshot_resolves(2))
next
  assume t: "truthy_str (IP_CAMERA_SNAPSHOT cfg)"
  then show "captureFrame True cfg (env\<lparr>query_camera_stream := q1, query_ip_camera_img := q2\<rparr>)
        source' w h = captureFrame True cfg env source w h"
    by (rule captureFrame_ignores_document)
  from t show "captureFrame2 True cfg (env\<lparr>query_camera_stream := q1, query_ip_camera_img := q2\<rparr>)
        source' w h = captureFrame2 True cfg env source w h"
    by (rule captureFrame2_ignores_document)
next
  fix r
  assume "\<not> truthy_str (IP_CAMERA_SNAPSHOT cfg)"
    and "captureFrame True cfg env source w h = Resolved r"
  then show "drawn (result_canvas r) = LivePreview"
    by (rule captureFrame_fallback_preview)
next
  fix r
  assume "\<not> truthy_str (IP_CAMERA_SNAPSHOT cfg)"
    and "captureFrame2 True cfg env source w h = Resolved r"
  then show "drawn (result_canvas r) = LivePreview"
    by (rule captureFrame2_fallback_preview)
next
  fix c
  assume "app.capturedImage (captureImage env (a\<lparr>app.capturedImage := None\<rparr>)) = Some c
      \<and> useIPCam a"
  then show "photo_source c = LivePreview"
    by (intro captureImage_ip_source [of env a c]) simp_all
qed


lemma test_snapshot_url:
  "''/cam-proxy/shot.jpg?t=42'' = IP_CAMERA_SNAPSHOT CAMERA_CONFIG @ ''?t='' @ toString (now test_browser)"
  "''/cam-proxy/shot.jpg?t=42'' = IP_CAMERA_SNAPSHOT CAMERA_CONFIG @ ''?t='' @ toString (now offline_browser)"
  "truthy_str (IP_CAMERA_SNAPSHOT CAMERA_CONFIG)"
  "IP_CAMERA_SNAPSHOT CAMERA_CONFIG = ''/cam-proxy/shot.jpg''"
  by (simp_all add: CAMERA_CONFIG_def test_browser_def offline_browser_def toString_42
      truthy_str_def)

lemma test_snapshot_loads:
  "loadImage test_browser ''/cam-proxy/shot.jpg?t=42'' = Some snapshot_img"
  "loadImage offline_browser ''/cam-proxy/shot.jpg?t=42'' = None"
  "drawImage_error test_browser = None"
  "toBlob test_browser = Some \<lparr>blob_size = 1000\<rparr>"
  by (simp_all add: test_browser_def offline_browser_def)

lemma snapshot_cover_640_480:
  "getCoverRect (naturalWidth snapshot_img) (naturalHeight snapshot_img) 640 480
     = Some \<lparr>sx = 240, sy = 0, sWidth = 1440, sHeight = 1080\<rparr>"
  by (simp add: snapshot_img_def getCoverRect_def falsy_def Let_def)

theorem remote_capture_draws_fresh_snapshot_witness:
  "captureFrame True CAMERA_CONFIG test_browser None 640 480
     = Resolved \<lparr>result_blob = \<lparr>blob_size = 1000\<rparr>,
         result_canvas = \<lparr>canvas_width = 640, canvas_height = 480,
            drawn = FetchedStill ''/cam-proxy/shot.jpg?t=42'', srcRect = None, mirrored = False\<rparr>,
         result_width = 640, result_height = 480\<rparr>
   \<and> captureFrame2 True CAMERA_CONFIG test_browser None 640 480
     = Resolved \<lparr>result_blob = \<lparr>blob_size = 1000\<rparr>,
         result_canvas = \<lparr>canvas_width = 640, canvas_height = 480,
            drawn = FetchedStill ''/cam-proxy/shot.jpg?t=42'',
            srcRect = Some \<lparr>sx = 240, sy = 0, sWidth = 1440, sHeight = 1080\<rparr>,
            mirrored = False\<rparr>,
         result_width = 640, result_height = 480\<rparr>
   \<and> captureFrame True CAMERA_CONFIG offline_browser None 640 480
     = Rejected (snapshot_error ''/cam-proxy/shot.jpg'')
   \<and> captureFrame2 True CAMERA_CONFIG offline_browser None 640 480
     = Rejected (snapshot_error ''/cam-proxy/shot.jpg'')
   \<and> (\<exists>r. captureFrame True no_snapshot_config test_browser None 640 480 = Resolved r
         \<and> drawn (result_canvas r) = LivePreview)"
proof -
  note on = remote_capture_draws_fresh_snapshot [OF test_snapshot_url(1), where source = None
      and w = 640 and h = 480 and img = snapshot_img and b = "\<lparr>blob_size = 1000\<rparr>",
      THEN conjunct1, rule_format, OF test_snapshot_url(3),
      THEN conjunct2, THEN conjunct2, THEN conjunct2, THEN conjunct1]
  have ok: "truthy 640 \<and> truthy 480
      \<and> loadImage test_browser ''/cam-proxy/shot.jpg?t=42'' = Some snapshot_img
      \<and> drawImage_error test_browser = None
      \<and> toBlob test_browser = Some \<lparr>blob_size = 1000\<rparr>"
    using test_snapshot_loads by (simp add: truthy_def)
  from on ok have 1: "captureFrame True CAMERA_CONFIG test_browser None 640 480
     = Resolved \<lparr>result_blob = \<lparr>blob_size = 1000\<rparr>,
         result_canvas = \<lparr>canvas_width = 640, canvas_height = 480,
            drawn = FetchedStill ''/cam-proxy/shot.jpg?t=42'', srcRect = None, mirrored = False\<rparr>,
         result_width = 640, result_height = 480\<rparr>"
    by simp
  from on ok have 2: "captureFrame2 True CAMERA_CONFIG test_browser None 640 480
     = Resolved \<lparr>result_blob = \<lparr>blob_size = 1000\<rparr>,
         result_canvas = \<lparr>canvas_width = 640, canvas_height = 480,
            drawn = FetchedStill ''/cam-proxy/shot.jpg?t=42'',
            srcRect = Some \<lparr>sx = 240, sy = 0, sWidth = 1440, sHeight = 1080\<rparr>,
            mirrored = False\<rparr>,
         result_width = 640, result_height = 480\<rparr>"
    by (simp add: snapshot_cover_640_480)
  note off = remote_capture_draws_fresh_snapshot [OF test_snapshot_url(2), where source = None
      and w = 640 and h = 480,
      THEN conjunct1, rule_format, OF test_snapshot_url(3),
      THEN conjunct2, THEN conjunct2, THEN conjunct1]
  have gone: "truthy 640 \<and> truthy 480
      \<and> loadImage offline_browser ''/cam-proxy/shot.jpg?t=42'' = None"
    using test_snapshot_loads by (simp add: truthy_def)
  from off gone have 3: "captureFrame True CAMERA_CONFIG offline_browser None 640 480
       = Rejected (snapshot_error ''/cam-proxy/shot.jpg'')"
    and 4: "captureFrame2 True CAMERA_CONFIG offline_browser None 640 480
       = Rejected (snapshot_error ''/cam-proxy/shot.jpg'')"
    by (simp_all add: test_snapshot_url(4))
  obtain r where 5: "captureFrame True no_snapshot_config test_browser None 640 480 = Resolved r"
    by (simp add: captureFrame_def encode_def no_snapshot_config_def CAMERA_CONFIG_def
        test_browser_def query_preview_def truthy_str_def falsy_def Let_def)
  have n: "\<not> truthy_str (IP_CAMERA_SNAPSHOT no_snapshot_config)"
    by (simp add: no_snapshot_config_def truthy_str_def)
  have "drawn (result_canvas r) = LivePreview"
    using remote_capture_draws_fresh_snapshot [OF refl, where cfg = no_snapshot_config
        and env = test_browser and source = None and w = 640 and h = 480,
        THEN conjunct2, THEN conjunct1, rule_format, OF n, THEN conjunct1, rule_format, OF 5] .
  with 5 have 6: "\<exists>r. captureFrame True no_snapshot_config test_browser None 640 480 = Resolved r
         \<and> drawn (result_canvas r) = LivePreview"
    by (intro exI [of _ r] conjI)
  from 1 2 3 4 6 show ?thesis by (intro conjI)
qed

lemma captureFrame2_snapshot_cover:
  assumes "truthy_str (IP_CAMERA_SNAPSHOT cfg)"
    and "captureFrame2 True cfg env source w h = Resolved r"
  shows "\<exists>img. loadImage env (IP_CAMERA_SNAPSHOT cfg @ ''?t='' @ toString (now env)) = Some img
       \<and> srcRect (result_canvas r) = getCoverRect (naturalWidth img) (naturalHeight img) w h
       \<and> \<not> mirrored (result_canvas r)
       \<and> canvas_width (result_canvas r) = w \<and> canvas_height (result_canvas r) = h"
  using assms
  by (auto simp: captureFrame2_def Let_def dest!: encode_snapshot_canvas
      split: if_splits option.splits)

lemma getCoverRect_same_aspect:
  assumes "0 < Sw" and "0 < Sh"
  shows "getCoverRect Sw Sh Sw Sh = Some \<lparr>sx = 0, sy = 0, sWidth = Sw, sHeight = Sh\<rparr>"
  using assms by (simp add: getCoverRect_def falsy_def Let_def)

text \<open>
  Claim C5. A remote capture should draw the fetched still through the cover crop for the
  target size. The later \<open>captureFrame\<close> does (lemma \<open>captureFrame2_snapshot_cover\<close>, and the
  crop is the whole still when the aspects agree, lemma \<open>getCoverRect_same_aspect\<close>). The
  \<open>captureFrame\<close> of \<open>src/services/cameraService.js\<close> defines \<open>getCoverRect\<close> and never
  calls it: with no frame selected, a 640 by 480 live preview and a 1920 by 1080 still,
  the target is 640 by 480 and the whole still is stretched over it, where the cover crop
  is the 1440 by 1080 rectangle at (240, 0).
\<close>

theorem snapshot_stretched_not_cropped:
  "getCaptureDimensions True test_browser (test_screen\<lparr>capture_screen.videoRef := None\<rparr>)
     = Some (640, 480)
   \<and> map_option cap_canvas
       (capture_screen.capturedImage
          (handleCapture_timer captureFrame True CAMERA_CONFIG test_browser
             (test_screen\<lparr>capture_screen.videoRef := None\<rparr>)))
     = Some \<lparr>canvas_width = 640, canvas_height = 480,
             drawn = FetchedStill ''/cam-proxy/shot.jpg?t=42'', srcRect = None, mirrored = False\<rparr>
   \<and> map_option cap_canvas
       (capture_screen.capturedImage
          (handleCapture_timer captureFrame2 True CAMERA_CONFIG test_browser
             (test_screen\<lparr>capture_screen.videoRef := None\<rparr>)))
     = Some \<lparr>canvas_width = 640, canvas_height = 480,
             drawn = FetchedStill ''/cam-proxy/shot.jpg?t=42'',
             srcRect = Some \<lparr>sx = 240, sy = 0, sWidth = 1440, sHeight = 1080\<rparr>,
             mirrored = False\<rparr>
   \<and> getCoverRect 1920 1080 640 480 = Some \<lparr>sx = 240, sy = 0, sWidth = 1440, sHeight = 1080\<rparr>"
  by (simp add: handleCapture_timer_def getCaptureDimensions_def compose_overlay_def
      useCamera_captureFrame_def captureFrame2_def captureFrame_def encode_snapshot_def
      getCoverRect_def toString_42 truthy_str_def
      test_screen_def test_browser_def CAMERA_CONFIG_def preview_img_def snapshot_img_def
      opt_num_def both_truthy_def truthy_def falsy_def js_or_def Let_def)

section \<open>Initialisation: the retry and the guard\<close>

lemma retry_constraints_are_defaults:
  "mergedConstraints VTrue = mergedConstraints Undefined
   \<and> mergedConstraints VTrue ''width'' = Some (Ideal 1920)
   \<and> mergedConstraints VTrue ''height'' = Some (Ideal 1080)
   \<and> mergedConstraints VTrue ''facingMode'' = Some (Bare ''user'')"
  by (simp add: mergedConstraints_def)

lemma initialize_retries_once:
  assumes "\<not> USE_IP_CAMERA cfg" and "\<not> isInitializing s"
    and "getUserMedia env (length (gumCalls s)) (mergedConstraints video)
           = Inl (DomError ''OverconstrainedError'' m)"
  shows "gumCalls (fst (initialize cfg env video el s))
           = gumCalls s @ [mergedConstraints video, mergedConstraints VTrue]
       \<and> snd (initialize cfg env video el s)
           = snd (initializeDeviceCamera env VTrue el
                    (request_camera video (initialize_prepare el s)))"
  using assms
  by (simp add: initialize_def initialize_prepare_def stop_def initializeDeviceCamera_def
      request_camera_def failed_def Let_def split: sum.splits option.splits prod.splits)

text \<open>
  Claim C6. After an overconstrained first attempt \<open>initialize\<close> retries once and returns
  the retry's result (lemma \<open>initialize_retries_once\<close>). The retry is not made with minimal
  constraints: it passes \<open>{video: true}\<close>, and \<open>initializeDeviceCamera\<close> spreads that into
  its defaults, so the second request still asks for the user-facing camera at the ideal
  size 1920 by 1080 (lemma \<open>retry_constraints_are_defaults\<close>). Here a switch to a device
  that is gone is answered first by an overconstrained error and then by a missing device.
\<close>

theorem overconstrained_retry_keeps_default_hints:
  "(let (s, r) = initialize device_config overconstrained_then_missing switch_constraints
                   (Some webcam_video) new_CameraService
    in length (gumCalls s) = 2
       \<and> errorType r = Some NO_DEVICE
       \<and> (gumCalls s ! 0) ''deviceId'' = Some (Exact ''cam-2'')
       \<and> (gumCalls s ! 1) ''deviceId'' = None
       \<and> (gumCalls s ! 1) ''facingMode'' = Some (Bare ''user'')
       \<and> (gumCalls s ! 1) ''width'' = Some (Ideal 1920)
       \<and> (gumCalls s ! 1) ''height'' = Some (Ideal 1080))"
  by (simp add: initialize_def initialize_prepare_def stop_def initializeDeviceCamera_def
      request_camera_def mergedConstraints_def device_config_def CAMERA_CONFIG_def
      overconstrained_then_missing_def switch_constraints_def new_CameraService_def
      failed_def Let_def)

lemma initialize_begin_flag:
  "fst (initialize_begin cfg video el s) = s' \<Longrightarrow> \<not> isInitializing s \<Longrightarrow> \<not> isInitializing s'"
  by (auto simp: initialize_begin_def initialize_prepare_def stop_def request_camera_def
      initializeIPCamera_def Let_def split: if_splits)

text \<open>
  Claim C9. A second \<open>initialize\<close> entered while the first is suspended on its camera
  request should wait for it. It does not: \<open>stop()\<close>, called right after the flag is
  raised, clears \<open>isInitializing\<close> again, so at the first call's \<open>await\<close> the flag is down
  (lemma \<open>initialize_begin_flag\<close>) and the second call makes a second request.
\<close>

theorem second_initialize_requests_camera_again:
  "(let (sA, pA) = initialize_begin device_config Undefined (Some webcam_video) new_CameraService;
        (sB, pB) = initialize_begin device_config Undefined (Some webcam_video) sA
    in pA = AtGetUserMedia \<and> \<not> isInitializing sA \<and> length (gumCalls sA) = 1
       \<and> pB = AtGetUserMedia \<and> length (gumCalls sB) = 2)"
  by (simp add: initialize_begin_def initialize_prepare_def stop_def request_camera_def
      device_config_def CAMERA_CONFIG_def new_CameraService_def Let_def)

section \<open>The photo store\<close>

lemma int_or_zero: "int_or a 0 = a"
  by (simp add: int_or_def)

lemma clamped_decrement: "max 0 (int_or a 1 - 1) = max 0 (a - 1)"
  by (simp add: int_or_def)

lemma counts_ok_new: "counts_ok new_StorageService"
  by (simp add: counts_ok_def new_StorageService_def)

lemma counts_ok_createSession: "counts_ok db \<Longrightarrow> counts_ok (fst (createSession t cat db))"
  by (auto simp: counts_ok_def createSession_def Let_def)

lemma counts_ok_savePhoto: "counts_ok db \<Longrightarrow> counts_ok (fst (savePhoto t sid b md db))"
  by (auto simp: counts_ok_def savePhoto_def Let_def int_or_zero split: option.splits if_splits)

lemma counts_ok_deletePhoto: "counts_ok db \<Longrightarrow> counts_ok (deletePhoto pid db)"
  by (auto simp: counts_ok_def deletePhoto_def split: option.splits if_splits)

lemma counts_ok_clearOldSessions: "counts_ok db \<Longrightarrow> counts_ok (clearOldSessions cutoff db)"
  by (auto simp: counts_ok_def clearOldSessions_def split: option.splits if_splits)

lemma counts_ok_call: "counts_ok db \<Longrightarrow> counts_ok (call c db)"
  by (cases c)
    (simp_all add: counts_ok_createSession counts_ok_savePhoto counts_ok_deletePhoto
      counts_ok_clearOldSessions)

lemma counts_ok_calls: "counts_ok db \<Longrightarrow> counts_ok (calls cs db)"
  by (induction cs arbitrary: db) (simp_all add: counts_ok_call)

lemma savePhoto_increments:
  assumes "counts_ok db" and "savePhoto t sid b md db = (db', Inr p)"
    and "sessions db sid = Some s"
  shows "\<exists>s'. sessions db' sid = Some s' \<and> photoCount s' = photoCount s + 1
          \<and> totalSize s' = totalSize s + int (blob_size b)"
  using assms
  by (auto simp: counts_ok_def savePhoto_def Let_def int_or_zero split: if_splits)

lemma deletePhoto_decrements:
  assumes "counts_ok db" and "photos db pid = Some p"
    and "sessions db (sessionId p) = Some s"
  shows "\<exists>s'. sessions (deletePhoto pid db) (sessionId p) = Some s'
          \<and> photoCount s' = max 0 (photoCount s - 1)
          \<and> totalSize s' = max 0 (totalSize s - blobSize p)"
  using assms
  by (auto simp: counts_ok_def deletePhoto_def int_or_zero clamped_decrement)


text \<open>
  Claim C10. In every store reached from the empty one by \<open>createSession\<close>, \<open>savePhoto\<close>,
  \<open>deletePhoto\<close> and \<open>clearOldSessions\<close>: each session's \<open>photoCount\<close> and \<open>totalSize\<close>
  are not negative; a \<open>savePhoto\<close> that succeeds adds exactly 1 and the blob's size to the
  session it names, when that session exists; a \<open>deletePhoto\<close> of a stored photo takes 1
  and the photo's \<open>blobSize\<close> off its session, stopping at 0.
\<close>

theorem session_counts_bookkeeping:
  assumes "db = calls cs new_StorageService"
  shows "(\<forall>sid s. sessions db sid = Some s \<longrightarrow> 0 \<le> photoCount s \<and> 0 \<le> totalSize s)
       \<and> (\<forall>t sid b md db' p s.
             savePhoto t sid b md db = (db', Inr p) \<and> sessions db sid = Some s \<longrightarrow>
             (\<exists>s'. sessions db' sid = Some s' \<and> photoCount s' = photoCount s + 1
                   \<and> totalSize s' = totalSize s + int (blob_size b)))
       \<and> (\<forall>pid p s.
             photos db pid = Some p \<and> sessions db (sessionId p) = Some s \<longrightarrow>
             (\<exists>s'. sessions (deletePhoto pid db) (sessionId p) = Some s'
                   \<and> photoCount s' = max 0 (photoCount s - 1)
                   \<and> totalSize s' = max 0 (totalSize s - blobSize p)))"
proof (intro conjI allI impI)
  have ok: "counts_ok db"
    unfolding assms by (rule counts_ok_calls) (rule counts_ok_new)
  {
    fix sid s assume "sessions db sid = Some s"
    with ok show "0 \<le> photoCount s" and "0 \<le> totalSize s"
      by (simp_all add: counts_ok_def)
  }
  {
    fix t sid b md db' p s
    assume "savePhoto t sid b md db = (db', Inr p) \<and> sessions db sid = Some s"
    then have "savePhoto t sid b md db = (db', Inr p)" and "sessions db sid = Some s"
      by simp_all
    with ok show "\<exists>s'. sessions db' sid = Some s' \<and> photoCount s' = photoCount s + 1
                   \<and> totalSize s' = totalSize s + int (blob_size b)"
      by (rule savePhoto_increments)
  }
  {
    fix pid p s
    assume "photos db pid = Some p \<and> sessions db (sessionId p) = Some s"
    then have "photos db pid = Some p" and "sessions db (sessionId p) = Some s"
      by simp_all
    with ok show "\<exists>s'. sessions (deletePhoto pid db) (sessionId p) = Some s'
                   \<and> photoCount s' = max 0 (photoCount s - 1)
                   \<and> totalSize s' = max 0 (totalSize s - blobSize p)"
      by (rule deletePhoto_decrements)
  }
qed

lemma toString_41: "toString 41 = ''41''"
  by (simp add: toString.simps)

lemma test_store_session:
  "sessions test_store ''session-41''
     = Some \<lparr>session_id = ''session-41'', createdAt = 41, updatedAt = 42, photoCount = 1,
             totalSize = 500, frameCategory = ''adult'', category = ''adult''\<rparr>"
  by (simp add: test_store_def createSession_def savePhoto_def
      new_StorageService_def toString_41 toString_42 truthy_str_def int_or_def Let_def)

lemma test_store_photo:
  "photos test_store ''photo-42''
     = Some \<lparr>photo_id = ''photo-42'', sessionId = ''session-41'',
             photo_blob = Some \<lparr>blob_size = 500\<rparr>, blobSize = 500, photo_createdAt = 42,
             edited = False, metadata = test_metadata\<rparr>"
  by (simp add: test_store_def createSession_def savePhoto_def
      new_StorageService_def toString_41 toString_42 truthy_str_def int_or_def Let_def)

theorem session_counts_bookkeeping_witness:
  "test_store = calls test_calls new_StorageService
   \<and> (\<exists>s. sessions test_store ''session-41'' = Some s \<and> photoCount s = 1 \<and> totalSize s = 500)
   \<and> (\<exists>s'. sessions (deletePhoto ''photo-42'' test_store) ''session-41'' = Some s'
          \<and> photoCount s' = 0 \<and> totalSize s' = 0)"
proof -
  let ?p = "\<lparr>photo_id = ''photo-42'', sessionId = ''session-41'',
             photo_blob = Some \<lparr>blob_size = 500\<rparr>, blobSize = 500, photo_createdAt = 42,
             edited = False, metadata = test_metadata\<rparr>"
  let ?s = "\<lparr>session_id = ''session-41'', createdAt = 41, updatedAt = 42, photoCount = 1,
             totalSize = 500, frameCategory = ''adult'', category = ''adult''\<rparr>"
  have r: "test_store = calls test_calls new_StorageService"
    by (simp add: test_store_def test_calls_def)
  have "photos test_store ''photo-42'' = Some ?p \<and> sessions test_store (sessionId ?p) = Some ?s"
    using test_store_session test_store_photo by simp
  with session_counts_bookkeeping [OF r, THEN conjunct2, THEN conjunct2, rule_format,
      of "''photo-42''" ?p ?s]
  have "\<exists>s'. sessions (deletePhoto ''photo-42'' test_store) ''session-41'' = Some s'
          \<and> photoCount s' = 0 \<and> totalSize s' = 0"
    by simp
  with r test_store_session show ?thesis by simp
qed

section \<open>Failed captures\<close>

lemma captureImage_showPreview: "app.showPreview (captureImage env a)"
  by (simp add: captureImage_def)

lemma captureImage_outcome:
  "(\<exists>c. captureImage env a = a\<lparr>app.capturedImage := Some c, app.showPreview := True\<rparr>)
   \<or> (\<exists>msg. captureImage env a = a\<lparr>app.console := app.console a @ [msg], app.showPreview := True\<rparr>)"
proof (cases "canvasRef a")
  case False
  then have "captureImage env a
      = a\<lparr>app.console := app.console a @ [''Canvas ref not found''], app.showPreview := True\<rparr>"
    by (simp add: captureImage_def captureImage_try_def log_error_def)
  then show ?thesis by (intro disjI2 exI)
next
  case True
  show ?thesis
  proof (cases "if useIPCam a then query_preview env else app.videoRef a")
    case None
    with True have "captureImage env a
        = a\<lparr>app.console := app.console a @ [''Camera source not found''], app.showPreview := True\<rparr>"
      by (simp add: captureImage_def captureImage_try_def log_error_def)
    then show ?thesis by (intro disjI2 exI)
  next
    case src: (Some source)
    show ?thesis
    proof (cases "captureImage_thrown env a")
      case None
      with True src have "captureImage env a
          = a\<lparr>app.capturedImage :=
                Some \<lparr>out_width = fst (frame_size env a source),
                      out_height = snd (frame_size env a source),
                      photo_source = (if useIPCam a then LivePreview else Provided),
                      photo_rect = captureImage_rect env a source,
                      photo_mirrored = (\<not> useIPCam a),
                      photo_filter = filter_class (filter_id a),
                      frame_layer = map_option fst (currentFrame_image env a)\<rparr>,
              app.showPreview := True\<rparr>"
        by (simp add: captureImage_def captureImage_try_def)
      then show ?thesis by (intro disjI1 exI)
    next
      case (Some msg)
      with True src have "captureImage env a
          = a\<lparr>app.console := app.console a @ [''Error in captureImage: '' @ msg],
              app.showPreview := True\<rparr>"
        by (simp add: captureImage_def captureImage_try_def log_error_def)
      then show ?thesis by (intro disjI2 exI)
    qed
  qed
qed

lemma capture_failed_effect:
  "capture_screen.showPreview (capture_failed msg c) = capture_screen.showPreview c
   \<and> capture_screen.console (capture_failed msg c)
       = capture_screen.console c @ [''Capture failed: '' @ msg]
   \<and> length (alerts (capture_failed msg c)) = Suc (length (alerts c))
   \<and> \<not> isCapturing (capture_failed msg c) \<and> \<not> isProcessing (capture_failed msg c)"
  by (simp add: capture_failed_def)

lemma handleCapture_timer_no_size:
  assumes "getCaptureDimensions isIP env (c\<lparr>showCountdown := False, showFlash := True\<rparr>) = None"
  shows "handleCapture_timer svc isIP cfg env c
       = capture_failed ''Unable to determine capture size'' (c\<lparr>showCountdown := False, showFlash := True\<rparr>)"
  using assms unfolding handleCapture_timer_def Let_def by simp

lemma handleCapture_timer_rejected:
  assumes "getCaptureDimensions isIP env (c\<lparr>showCountdown := False, showFlash := True\<rparr>) = Some (w, h)"
    and "useCamera_captureFrame svc isIP cfg env
           (capture_screen.videoRef (c\<lparr>showCountdown := False, showFlash := True\<rparr>)) w h = Rejected msg"
  shows "handleCapture_timer svc isIP cfg env c
       = capture_failed msg (c\<lparr>showCountdown := False, showFlash := True\<rparr>)"
  using assms unfolding handleCapture_timer_def Let_def by simp

lemma handleCapture_timer_overlay_failed:
  assumes "getCaptureDimensions isIP env (c\<lparr>showCountdown := False, showFlash := True\<rparr>) = Some (w, h)"
    and "useCamera_captureFrame svc isIP cfg env
           (capture_screen.videoRef (c\<lparr>showCountdown := False, showFlash := True\<rparr>)) w h = Resolved r"
    and "compose_overlay env (c\<lparr>showCountdown := False, showFlash := True\<rparr>) r = Inl msg"
  shows "handleCapture_timer svc isIP cfg env c
       = capture_failed msg (c\<lparr>showCountdown := False, showFlash := True\<rparr>)"
  using assms unfolding handleCapture_timer_def Let_def by simp


text \<open>
  Claim C7, as stated, fails on the capture screen: when the capture fails there (here the
  snapshot endpoint does not answer), the timer callback logs and alerts the error and
  leaves \<open>showPreview\<close> as it was, so the result review is not shown.
\<close>

theorem failed_capture_stays_on_capture_screen:
  "\<not> capture_screen.showPreview
       (handleCapture_timer captureFrame2 True CAMERA_CONFIG offline_browser test_screen)
   \<and> capture_screen.capturedImage
       (handleCapture_timer captureFrame2 True CAMERA_CONFIG offline_browser test_screen) = None
   \<and> capture_screen.console
       (handleCapture_timer captureFrame2 True CAMERA_CONFIG offline_browser test_screen)
       = [''Capture failed: '' @ snapshot_error ''/cam-proxy/shot.jpg'']"
  by (simp add: handleCapture_timer_def getCaptureDimensions_def useCamera_captureFrame_def
      captureFrame2_def capture_failed_def offline_browser_def test_browser_def test_screen_def
      CAMERA_CONFIG_def preview_img_def opt_num_def both_truthy_def truthy_def falsy_def
      js_or_def truthy_str_def Let_def)

text \<open>
  Claim C7, amended. In the single-file App, \<open>captureImage\<close> always ends with \<open>showPreview\<close>
  set, and every attempt either stores a new picture or appends an error line to the
  console (canvas missing, source missing, or a thrown draw or encode failure). On the
  capture screen, a capture that fails (no capture size, a rejected \<open>captureFrame\<close>, or a
  failing frame overlay) is logged with \<open>console.error\<close> and shown in an alert, clears
  \<open>isCapturing\<close> and \<open>isProcessing\<close>, and leaves \<open>showPreview\<close> unchanged: the user stays on
  the capture screen and can capture again.
\<close>

theorem capture_failure_handling:
  "app.showPreview (captureImage env a)
   \<and> ((\<exists>img. captureImage env a = a\<lparr>app.capturedImage := Some img, app.showPreview := True\<rparr>)
        \<or> (\<exists>msg. captureImage env a
               = a\<lparr>app.console := app.console a @ [msg], app.showPreview := True\<rparr>))
   \<and> (getCaptureDimensions isIP env (c\<lparr>showCountdown := False, showFlash := True\<rparr>) = None \<longrightarrow>
        handleCapture_timer svc isIP cfg env c
          = capture_failed ''Unable to determine capture size''
              (c\<lparr>showCountdown := False, showFlash := True\<rparr>))
   \<and> (getCaptureDimensions isIP env (c\<lparr>showCountdown := False, showFlash := True\<rparr>) = Some (w, h)
        \<and> useCamera_captureFrame svc isIP cfg env
             (capture_screen.videoRef (c\<lparr>showCountdown := False, showFlash := True\<rparr>)) w h
            = Rejected msg \<longrightarrow>
        handleCapture_timer svc isIP cfg env c
          = capture_failed msg (c\<lparr>showCountdown := False, showFlash := True\<rparr>))
   \<and> (getCaptureDimensions isIP env (c\<lparr>showCountdown := False, showFlash := True\<rparr>) = Some (w, h)
        \<and> useCamera_captureFrame svc isIP cfg env
             (capture_screen.videoRef (c\<lparr>showCountdown := False, showFlash := True\<rparr>)) w h
            = Resolved r
        \<and> compose_overlay env (c\<lparr>showCountdown := False, showFlash := True\<rparr>) r = Inl msg \<longrightarrow>
        handleCapture_timer svc isIP cfg env c
          = capture_failed msg (c\<lparr>showCountdown := False, showFlash := True\<rparr>))
   \<and> capture_screen.showPreview (capture_failed msg c') = capture_screen.showPreview c'
   \<and> capture_screen.console (capture_failed msg c')
       = capture_screen.console c' @ [''Capture failed: '' @ msg]
   \<and> length (alerts (capture_failed msg c')) = Suc (length (alerts c'))
   \<and> \<not> isCapturing (capture_failed msg c') \<and> \<not> isProcessing (capture_failed msg c')"
proof (intro conjI impI)
  show "app.showPreview (captureImage env a)"
    by (rule captureImage_showPreview)
  show "(\<exists>img. captureImage env a = a\<lparr>app.capturedImage := Some img, app.showPreview := True\<rparr>)
        \<or> (\<exists>msg. captureImage env a
               = a\<lparr>app.console := app.console a @ [msg], app.showPreview := True\<rparr>)"
    by (rule captureImage_outcome)
  show "handleCapture_timer svc isIP cfg env c
          = capture_failed ''Unable to determine capture size''
              (c\<lparr>showCountdown := False, showFlash := True\<rparr>)"
    if "getCaptureDimensions isIP env (c\<lparr>showCountdown := False, showFlash := True\<rparr>) = None"
    using that by (rule handleCapture_timer_no_size)
  show "handleCapture_timer svc isIP cfg env c
          = capture_failed msg (c\<lparr>showCountdown := False, showFlash := True\<rparr>)"
    if "getCaptureDimensions isIP env (c\<lparr>showCountdown := False, showFlash := True\<rparr>) = Some (w, h)
        \<and> useCamera_captureFrame svc isIP cfg env
             (capture_screen.videoRef (c\<lparr>showCountdown := False, showFlash := True\<rparr>)) w h
            = Rejected msg"
    using that by (intro handleCapture_timer_rejected [of isIP env c w h]) simp_all
  show "handleCapture_timer svc isIP cfg env c
          = capture_failed msg (c\<lparr>showCountdown := False, showFlash := True\<rparr>)"
    if "getCaptureDimensions isIP env (c\<lparr>showCountdown := False, showFlash := True\<rparr>) = Some (w, h)
        \<and> useCamera_captureFrame svc isIP cfg env
             (capture_screen.videoRef (c\<lparr>showCountdown := False, showFlash := True\<rparr>)) w h
            = Resolved r
        \<and> compose_overlay env (c\<lparr>showCountdown := False, showFlash := True\<rparr>) r = Inl msg"
    using that by (intro handleCapture_timer_overlay_failed [of isIP env c w h svc cfg r]) simp_all
  show "capture_screen.showPreview (capture_failed msg c') = capture_screen.showPreview c'"
    and "capture_screen.console (capture_failed msg c')
       = capture_screen.console c' @ [''Capture failed: '' @ msg]"
    and "length (alerts (capture_failed msg c')) = Suc (length (alerts c'))"
    and "\<not> isCapturing (capture_failed msg c')" and "\<not> isProcessing (capture_failed msg c')"
    using capture_failed_effect [of msg c'] by simp_all
qed

theorem capture_failure_handling_witness:
  "getCaptureDimensions True offline_browser (test_screen\<lparr>showCountdown := False, showFlash := True\<rparr>)
     = Some (640, 480)
   \<and> useCamera_captureFrame captureFrame2 True CAMERA_CONFIG offline_browser
        (capture_screen.videoRef (test_screen\<lparr>showCountdown := False, showFlash := True\<rparr>)) 640 480
     = Rejected (snapshot_error ''/cam-proxy/shot.jpg'')
   \<and> handleCapture_timer captureFrame2 True CAMERA_CONFIG offline_browser test_screen
     = capture_failed (snapshot_error ''/cam-proxy/shot.jpg'')
         (test_screen\<lparr>showCountdown := False, showFlash := True\<rparr>)
   \<and> app.showPreview (captureImage (test_browser\<lparr>drawImage_error := Some ''InvalidStateError''\<rparr>) test_app)"
proof -
  have d: "getCaptureDimensions True offline_browser
             (test_screen\<lparr>showCountdown := False, showFlash := True\<rparr>) = Some (640, 480)"
    by (simp add: getCaptureDimensions_def offline_browser_def test_browser_def test_screen_def
        preview_img_def opt_num_def both_truthy_def truthy_def js_or_def Let_def)
  have u: "useCamera_captureFrame captureFrame2 True CAMERA_CONFIG offline_browser
        (capture_screen.videoRef (test_screen\<lparr>showCountdown := False, showFlash := True\<rparr>)) 640 480
     = Rejected (snapshot_error ''/cam-proxy/shot.jpg'')"
    by (simp add: useCamera_captureFrame_def captureFrame2_def offline_browser_def
        test_browser_def CAMERA_CONFIG_def falsy_def truthy_str_def Let_def)
  have "handleCapture_timer captureFrame2 True CAMERA_CONFIG offline_browser test_screen
     = capture_failed (snapshot_error ''/cam-proxy/shot.jpg'')
         (test_screen\<lparr>showCountdown := False, showFlash := True\<rparr>)"
    using capture_failure_handling [where env = offline_browser and isIP = True
        and c = test_screen and svc = captureFrame2 and cfg = CAMERA_CONFIG and w = 640
        and h = 480 and msg = "snapshot_error ''/cam-proxy/shot.jpg''"] d u
    by simp
  moreover have "app.showPreview
      (captureImage (test_browser\<lparr>drawImage_error := Some ''InvalidStateError''\<rparr>) test_app)"
    using capture_failure_handling
      [where env = "test_browser\<lparr>drawImage_error := Some ''InvalidStateError''\<rparr>"
        and a = test_app]
    by simp
  ultimately show ?thesis using d u by simp
qed

text \<open>
  The timer set with the flash runs 600 ms later; when the capture has failed before it
  runs, it sets \<open>isProcessing\<close> again after the \<open>catch\<close> block has cleared it.
\<close>

lemma flash_timer_after_failed_capture:
  "isProcessing
     (flash_timer (handleCapture_timer captureFrame2 True CAMERA_CONFIG offline_browser test_screen))
   \<and> \<not> capture_screen.showPreview
     (flash_timer (handleCapture_timer captureFrame2 True CAMERA_CONFIG offline_browser test_screen))"
  by (simp add: flash_timer_def handleCapture_timer_def getCaptureDimensions_def
      useCamera_captureFrame_def captureFrame2_def capture_failed_def offline_browser_def
      test_browser_def test_screen_def CAMERA_CONFIG_def preview_img_def opt_num_def
      both_truthy_def truthy_def falsy_def js_or_def truthy_str_def Let_def)

section \<open>The capture size without a frame\<close>




















end
